theory Spec2Isabelle
  imports Complex_Main
begin

section \<open>JavaScript values carried by wire events\<close>

text \<open>
  Payloads of socket events are JSON-shaped JavaScript values. Numbers are only stored,
  compared and tested for truthiness by the connection manager, never computed with, so
  they are modelled as integers. An object is the list of its own properties in the
  order in which \<^verbatim>\<open>Object.entries\<close> enumerates them. The property names that the
  manager reads from wire values (\<^verbatim>\<open>string\<close>, \<^verbatim>\<open>value\<close>, \<^verbatim>\<open>sources\<close>,
  \<^verbatim>\<open>component\<close>, \<^verbatim>\<open>components\<close>, \<^verbatim>\<open>controls\<close>, \<^verbatim>\<open>connected\<close>, \<^verbatim>\<open>id\<close>, \<^verbatim>\<open>name\<close>
  and the like) are none of those that every object inherits, so such a read looks at
  own properties only. The objects that the manager indexes with strings it is given
  are read through \<open>readSlot\<close> below, which also sees the inherited names.
\<close>

datatype jsval =
    JUndefined
  | JNull
  | JBool bool
  | JNum int
  | JStr string
  | JArr "jsval list"
  | JObj "(string \<times> jsval) list"

datatype error =
    TypeError
  | SyntaxError
  | NotConnected
  | ComponentNotFound string
  | CommandTimeout
  | CommandFailed jsval
  | IdentificationTimeout
  | SubscribeTimeout
  | ConnectionTimeout
  | ConnectError

text \<open>Truthiness, as used by \<^verbatim>\<open>||\<close>, \<^verbatim>\<open>if (x)\<close> and \<^verbatim>\<open>filter(Boolean)\<close>.\<close>

fun truthy :: "jsval \<Rightarrow> bool" where
  "truthy JUndefined = False"
| "truthy JNull = False"
| "truthy (JBool b) = b"
| "truthy (JNum n) = (n \<noteq> 0)"
| "truthy (JStr s) = (s \<noteq> [])"
| "truthy (JArr xs) = True"
| "truthy (JObj fs) = True"

text \<open>
  \<^verbatim>\<open>v.k\<close>: reading a property of \<^verbatim>\<open>undefined\<close> or \<^verbatim>\<open>null\<close> throws a TypeError;
  a missing property reads as \<^verbatim>\<open>undefined\<close>.
\<close>

fun getProp :: "jsval \<Rightarrow> string \<Rightarrow> error + jsval" where
  "getProp JUndefined k = Inl TypeError"
| "getProp JNull k = Inl TypeError"
| "getProp (JObj fs) k = Inr (case map_of fs k of Some v \<Rightarrow> v | None \<Rightarrow> JUndefined)"
| "getProp v k = Inr JUndefined"

text \<open>\<^verbatim>\<open>v?.k\<close>: optional chaining gives \<^verbatim>\<open>undefined\<close> where \<^verbatim>\<open>v.k\<close> would throw.\<close>

definition getPropOpt :: "jsval \<Rightarrow> string \<Rightarrow> jsval" where
  "getPropOpt v k = (case getProp v k of Inl e \<Rightarrow> JUndefined | Inr x \<Rightarrow> x)"

text \<open>\<^verbatim>\<open>a || b\<close> on values.\<close>

definition jsOr :: "jsval \<Rightarrow> jsval \<Rightarrow> jsval" where
  "jsOr a b = (if truthy a then a else b)"

definition bindE :: "error + 'a \<Rightarrow> ('a \<Rightarrow> error + 'b) \<Rightarrow> error + 'b" where
  "bindE r f = (case r of Inl e \<Rightarrow> Inl e | Inr x \<Rightarrow> f x)"

subsection \<open>Objects used as tables\<close>

text \<open>
  The manager keeps several plain objects as tables and reads them as \<^verbatim>\<open>table[key]\<close>
  with a key it is given. Such a read goes through the prototype chain: under the names
  below every plain object yields a built-in (a function, or for \<^verbatim>\<open>__proto__\<close> the
  prototype object itself), all of them truthy.
\<close>

definition objectPrototypeKeys :: "string list" where
  "objectPrototypeKeys =
     [''constructor'', ''__defineGetter__'', ''__defineSetter__'', ''hasOwnProperty'',
      ''__lookupGetter__'', ''__lookupSetter__'', ''isPrototypeOf'',
      ''propertyIsEnumerable'', ''toString'', ''valueOf'', ''__proto__'',
      ''toLocaleString'']"

text \<open>What \<^verbatim>\<open>table[key]\<close> finds: an own property, a built-in inherited under that
  name, or nothing (\<^verbatim>\<open>undefined\<close>).\<close>

datatype 'a slot = Own 'a | Inherited string | Missing

definition readSlot :: "(string \<rightharpoonup> 'a) \<Rightarrow> string \<Rightarrow> 'a slot" where
  "readSlot own k =
     (case own k of
        Some v \<Rightarrow> Own v
      | None \<Rightarrow> if k \<in> set objectPrototypeKeys then Inherited k else Missing)"

text \<open>
  The tables that the manager fills are kept as the list of their own properties, in
  the order in which they were first set (the order of enumeration, for names that are
  not array indices): a property that is set again keeps its place, a new one is added
  at the end.
\<close>

fun upsert :: "string \<Rightarrow> 'a \<Rightarrow> (string \<times> 'a) list \<Rightarrow> (string \<times> 'a) list" where
  "upsert k v [] = [(k, v)]"
| "upsert k v (e # es) = (if fst e = k then (k, v) # es else e # upsert k v es)"

text \<open>
  \<^verbatim>\<open>table[key] = v\<close> on the own properties of a plain object: under the name
  \<^verbatim>\<open>__proto__\<close> the assignment of an object replaces the table's prototype and adds no
  own property; under every other name it sets the own property.
\<close>

definition writeSlot :: "(string \<times> 'a) list \<Rightarrow> string \<Rightarrow> 'a \<Rightarrow> (string \<times> 'a) list" where
  "writeSlot own k v = (if k = ''__proto__'' then own else upsert k v own)"

subsection \<open>Values as property keys\<close>

text \<open>Decimal digits of a natural number.\<close>

function showNat :: "nat \<Rightarrow> string" where
  "showNat n =
     (if n < 10 then [char_of (48 + n)]
      else showNat (n div 10) @ [char_of (48 + n mod 10)])"
  by pat_completeness auto
termination
  by (relation "measure id") auto

text \<open>
  \<^verbatim>\<open>String(v)\<close>, which is what a value becomes when it is used as a property key.
  Integers print in decimal. An array prints its elements joined by commas, with
  \<^verbatim>\<open>undefined\<close> and \<^verbatim>\<open>null\<close> elements left empty. An object prints through the
  \<^verbatim>\<open>toString\<close> it inherits, unless it has an own property \<^verbatim>\<open>toString\<close>: a wire value
  holds no function, so the conversion then falls back to the inherited \<^verbatim>\<open>valueOf\<close>,
  which yields no primitive, and throws a TypeError.
\<close>

fun toStringJs :: "jsval \<Rightarrow> error + string"
  and joinJs :: "jsval list \<Rightarrow> error + string" where
  "toStringJs JUndefined = Inr ''undefined''"
| "toStringJs JNull = Inr ''null''"
| "toStringJs (JBool b) = Inr (if b then ''true'' else ''false'')"
| "toStringJs (JNum n) = Inr (if n < 0 then ''-'' @ showNat (nat (- n)) else showNat (nat n))"
| "toStringJs (JStr s) = Inr s"
| "toStringJs (JArr xs) = joinJs xs"
| "toStringJs (JObj fs) =
     (if ''toString'' \<in> fst ` set fs then Inl TypeError else Inr ''[object Object]'')"
| "joinJs [] = Inr []"
| "joinJs (x # xs) =
     (case (if x = JUndefined \<or> x = JNull then Inr [] else toStringJs x) of
        Inl e \<Rightarrow> Inl e
      | Inr a \<Rightarrow>
          if xs = [] then Inr a
          else (case joinJs xs of Inl e \<Rightarrow> Inl e | Inr b \<Rightarrow> Inr (a @ '','' @ b)))"

text \<open>
  \<^verbatim>\<open>Object.entries(v)\<close> for a truthy value: the own properties of an object, the
  indexed elements of an array, the indexed characters of a string, and nothing for a
  number or a boolean.
\<close>

fun indexed :: "nat \<Rightarrow> jsval list \<Rightarrow> (string \<times> jsval) list" where
  "indexed i [] = []"
| "indexed i (x # xs) = (showNat i, x) # indexed (Suc i) xs"

fun entriesOf :: "jsval \<Rightarrow> (string \<times> jsval) list" where
  "entriesOf (JObj fs) = fs"
| "entriesOf (JArr xs) = indexed 0 xs"
| "entriesOf (JStr s) = indexed 0 (map (\<lambda>c. JStr [c]) s)"
| "entriesOf v = []"

section \<open>The connection manager's data\<close>

text \<open>\<^verbatim>\<open>this.connectionHealth\<close>; times are milliseconds as returned by \<^verbatim>\<open>Date.now()\<close>.\<close>

record connectionHealth =
  lastPingSent :: int
  lastPongReceived :: int
  missedPongs :: int
  maxMissedPongs :: int
  pongTimeout :: int

text \<open>\<^verbatim>\<open>this.state\<close>: the state cache with its shared timestamp and TTL.\<close>

record cachedState =
  hardwareState :: jsval
  connectedSources :: jsval
  screenPower :: jsval
  privacyGlass :: jsval
  didoOutput :: jsval
  lightingLevel :: jsval
  volumeLevel :: jsval
  timestamp :: int
  TTL :: int

text \<open>\<^verbatim>\<open>this.controllerStatus\<close>.\<close>

record controllerStatus =
  statusConnected :: bool
  statusHealth :: string
  lastUpdate :: int

text \<open>\<^verbatim>\<open>this.serverIdentity\<close>.\<close>

record serverIdentity =
  socketId :: jsval
  clientId :: jsval
  serverTime :: jsval
  transport :: jsval
  ipAddress :: jsval
  connectedAt :: jsval

text \<open>An entry of \<^verbatim>\<open>this.discoveredComponents.list\<close>.\<close>

record componentRecord =
  compId :: string
  compName :: jsval
  compControls :: jsval

text \<open>An entry of \<^verbatim>\<open>this.discoveredComponents.watched\<close>.\<close>

record watchRecord =
  subscribedAt :: int
  watchedState :: jsval

text \<open>The fields of \<^verbatim>\<open>this.config\<close> that the manager reads; a timeout of 0 is falsy
  and selects the default.\<close>

record config =
  controllerId :: jsval
  commandTimeout :: int
  identifyTimeout :: int
  discoveryTimeout :: int
  connectionTimeout :: int

text \<open>The component a \<^verbatim>\<open>control:set\<close> request names: a component id, or the built-in
  that the role table yields under an inherited name.\<close>

datatype target = Component string | Builtin string

text \<open>Messages the manager emits on the socket.\<close>

datatype wireMsg =
    ClientIdentify
  | ControllerSubscribe jsval
  | ComponentSubscribe jsval string
  | ControlSet jsval target string jsval string
  | Ping int

text \<open>
  Listeners registered on a socket. A closure created by a call is identified by the
  number of that call, which is also the number of the promise the call returns. The
  closures of \<^verbatim>\<open>sendControl\<close> capture the transaction id, the closure of
  \<^verbatim>\<open>subscribeToComponent\<close> the component id. \<open>InitListener p\<close> is the listener that
  the call \<open>p\<close> of \<^verbatim>\<open>init\<close> registers for the event it is listed under.
\<close>

datatype listener =
    OnSuccess nat string
  | OnError nat string
  | OnState nat string
  | OnIdentify nat
  | OnControllerState nat
  | OnReady nat
  | InitListener nat
  | HandleControlUpdate
  | HandleComponentState

text \<open>Handles of \<^verbatim>\<open>setTimeout\<close>, by the call that set them.\<close>

datatype timer =
    CommandTimer nat string
  | SubscribeTimer nat
  | IdentifyTimer nat
  | DiscoveryTimer nat
  | ReadyTimer nat
  | ConnectTimer nat

datatype outcome =
    Resolved jsval
  | Rejected error

text \<open>A socket: its registered listeners (event name, listener) in registration
  order, and the messages emitted on it so far.\<close>

record socketState =
  handlers :: "(string \<times> listener) list"
  outbox :: "wireMsg list"

text \<open>
  A suspended run of the socket's \<^verbatim>\<open>connect\<close> handler: the promise it awaits, where
  in the handler it is, and the \<^verbatim>\<open>init\<close> promise it settles in the end.
\<close>

datatype stage = AfterIdentify | AfterDiscovery | AfterReady | AfterRetry

record task =
  awaits :: nat
  stage :: stage
  settles :: nat

text \<open>
  The \<^verbatim>\<open>WebSocketManager\<close> instance, with what the run-time holds for it. \<open>retired\<close>
  are the sockets that a later \<^verbatim>\<open>init\<close> has replaced; they keep their listeners.
  \<open>strayState\<close> are properties written to \<^verbatim>\<open>this.state\<close> under other names than
  its nine fields (by the name of the built-in whose text is the property's name).
  \<open>timers\<close> are the pending \<^verbatim>\<open>setTimeout\<close> handles with their delays. \<open>tasks\<close> are
  the suspended connect handlers and \<open>runnable\<close> those whose awaited promise has been
  settled and that run when the current handler has returned. Three logs record what
  leaves the manager: \<open>settled\<close> lists every call of a promise's
  \<^verbatim>\<open>resolve\<close>/\<^verbatim>\<open>reject\<close> (the first one for a promise decides it), \<open>uncaught\<close> the
  exceptions that escaped a listener, and \<open>notifyLog\<close> every invocation of a state
  listener with the state it was given.
\<close>

record wsManager =
  socket :: "socketState option"
  retired :: "socketState list"
  isConnected :: bool
  isIdentified :: bool
  reconnectAttempt :: nat
  health :: connectionHealth
  latencyAverage :: int
  controllerStatus :: controllerStatus
  serverIdentity :: serverIdentity
  components :: "(string \<times> string option) list"
  discoveredList :: "(string \<times> componentRecord) list"
  watched :: "(string \<times> watchRecord) list"
  state :: cachedState
  strayState :: "(string \<times> jsval) list"
  stateListeners :: "nat list"
  config :: "config option"
  timers :: "(timer \<times> int) list"
  tasks :: "task list"
  runnable :: "(task \<times> outcome) list"
  settled :: "(nat \<times> outcome) list"
  uncaught :: "error list"
  notifyLog :: "(nat \<times> cachedState) list"
  nextClosure :: nat

text \<open>The constructor.\<close>

definition newManager :: wsManager where
  "newManager = \<lparr>
     socket = None,
     retired = [],
     isConnected = False,
     isIdentified = False,
     reconnectAttempt = 0,
     health = \<lparr> lastPingSent = 0, lastPongReceived = 0, missedPongs = 0,
                 maxMissedPongs = 3, pongTimeout = 30000 \<rparr>,
     latencyAverage = 0,
     controllerStatus = \<lparr> statusConnected = False, statusHealth = ''unknown'', lastUpdate = 0 \<rparr>,
     serverIdentity = \<lparr> socketId = JNull, clientId = JNull, serverTime = JNull,
                         transport = JNull, ipAddress = JNull, connectedAt = JNull \<rparr>,
     components = [(''videoWall'', None), (''hdmiDisplay'', None), (''gpio'', None),
                   (''hdmiDecoder'', None), (''lighting'', None), (''mixer'', None)],
     discoveredList = [],
     watched = [],
     state = \<lparr> hardwareState = JNull, connectedSources = JNull, screenPower = JNull,
                privacyGlass = JNull, didoOutput = JNull, lightingLevel = JNull,
                volumeLevel = JNull, timestamp = 0, TTL = 5000 \<rparr>,
     strayState = [],
     stateListeners = [],
     config = None,
     timers = [],
     tasks = [],
     runnable = [],
     settled = [],
     uncaught = [],
     notifyLog = [],
     nextClosure = 0 \<rparr>"

text \<open>\<^verbatim>\<open>this.socket.emit(msg)\<close>, for a socket that exists.\<close>

definition emitOn :: "wireMsg \<Rightarrow> socketState \<Rightarrow> socketState" where
  "emitOn m sock = sock\<lparr>outbox := outbox sock @ [m]\<rparr>"

text \<open>\<^verbatim>\<open>x || d\<close> for a configured timeout.\<close>

definition orDefault :: "int \<Rightarrow> int \<Rightarrow> int" where
  "orDefault x d = (if x \<noteq> 0 then x else d)"

subsection \<open>Listeners, timers and promises\<close>

text \<open>\<^verbatim>\<open>this.socket.on(event, fn)\<close> and \<^verbatim>\<open>this.socket.once(event, fn)\<close>, for a socket that
  exists; a listener registered with \<^verbatim>\<open>once\<close> takes itself off when it is called.\<close>

definition onEvent :: "string \<Rightarrow> listener \<Rightarrow> socketState \<Rightarrow> socketState" where
  "onEvent ev l sock = sock\<lparr>handlers := handlers sock @ [(ev, l)]\<rparr>"

text \<open>\<^verbatim>\<open>this.socket.off(event, fn)\<close>: the first registration of the listener for the
  event is removed from the socket that \<^verbatim>\<open>this.socket\<close> is at the time of the call.\<close>

definition off :: "string \<Rightarrow> listener \<Rightarrow> wsManager \<Rightarrow> wsManager" where
  "off ev l s =
     s\<lparr>socket := map_option (\<lambda>sock. sock\<lparr>handlers := remove1 (ev, l) (handlers sock)\<rparr>) (socket s)\<rparr>"

text \<open>\<^verbatim>\<open>setTimeout(fn, delay)\<close> and \<^verbatim>\<open>clearTimeout(h)\<close>.\<close>

definition setTimeout :: "timer \<Rightarrow> int \<Rightarrow> wsManager \<Rightarrow> wsManager" where
  "setTimeout h delay s = s\<lparr>timers := timers s @ [(h, delay)]\<rparr>"

definition clearTimeout :: "timer \<Rightarrow> wsManager \<Rightarrow> wsManager" where
  "clearTimeout h s = s\<lparr>timers := filter (\<lambda>(h', d). h' \<noteq> h) (timers s)\<rparr>"

definition pending :: "timer \<Rightarrow> wsManager \<Rightarrow> bool" where
  "pending h s \<longleftrightarrow> h \<in> fst ` set (timers s)"

text \<open>
  A call of the \<^verbatim>\<open>resolve\<close> or \<^verbatim>\<open>reject\<close> of promise \<open>n\<close>. Every call is logged. The
  first call decides the promise: the connect handlers that await it become runnable.
\<close>

definition settle :: "nat \<Rightarrow> outcome \<Rightarrow> wsManager \<Rightarrow> wsManager" where
  "settle n r s =
     (if n \<in> fst ` set (settled s) then s\<lparr>settled := settled s @ [(n, r)]\<rparr>
      else s\<lparr>settled := settled s @ [(n, r)],
             runnable := runnable s @ map (\<lambda>t. (t, r)) (filter (\<lambda>t. awaits t = n) (tasks s)),
             tasks := filter (\<lambda>t. awaits t \<noteq> n) (tasks s)\<rparr>)"

text \<open>The outcome of promise \<open>n\<close>, if it has one: the first logged call.\<close>

definition outcomeOf :: "nat \<Rightarrow> wsManager \<Rightarrow> outcome option" where
  "outcomeOf n s = map_of (settled s) n"

text \<open>How often the promise \<open>n\<close> has been resolved or rejected.\<close>

definition resolutions :: "nat \<Rightarrow> wsManager \<Rightarrow> nat" where
  "resolutions n s = length (filter (\<lambda>(m, r). m = n) (settled s))"

text \<open>
  An inbound event is delivered to the listeners registered for its name on the current
  socket at the moment of delivery, in registration order: the emitter iterates over a
  copy of its list. An exception thrown by a listener ends the delivery, so the
  listeners after it are not called; it is logged as uncaught.
\<close>

definition listenersOn :: "string \<Rightarrow> socketState \<Rightarrow> listener list" where
  "listenersOn ev sock = map snd (filter (\<lambda>(e, l). e = ev) (handlers sock))"

definition listenersFor :: "string \<Rightarrow> wsManager \<Rightarrow> listener list" where
  "listenersFor ev s = (case socket s of None \<Rightarrow> [] | Some sock \<Rightarrow> listenersOn ev sock)"

fun dispatch ::
  "(listener \<Rightarrow> wsManager \<Rightarrow> error option \<times> wsManager) \<Rightarrow> listener list \<Rightarrow> wsManager
     \<Rightarrow> wsManager" where
  "dispatch call [] s = s"
| "dispatch call (l # ls) s =
     (case call l s of
        (Some e, s') \<Rightarrow> s'\<lparr>uncaught := uncaught s' @ [e]\<rparr>
      | (None, s') \<Rightarrow> dispatch call ls s')"

definition deliver ::
  "string \<Rightarrow> (listener \<Rightarrow> wsManager \<Rightarrow> error option \<times> wsManager) \<Rightarrow> wsManager \<Rightarrow> wsManager" where
  "deliver ev call s = dispatch call (listenersFor ev s) s"

text \<open>The listeners registered on a socket for an event name.\<close>

definition listenerCount :: "string \<Rightarrow> socketState \<Rightarrow> nat" where
  "listenerCount ev sock = length (listenersOn ev sock)"

section \<open>State cache\<close>

text \<open>
  \<^verbatim>\<open>notifyStateChange\<close>: every registered state listener is called with \<^verbatim>\<open>this.state\<close>;
  an exception thrown by a listener is caught and logged. Listeners are the callers'
  callbacks and are taken not to call back into the manager.
\<close>

definition notifyStateChange :: "wsManager \<Rightarrow> wsManager" where
  "notifyStateChange s =
     s\<lparr>notifyLog := notifyLog s @ map (\<lambda>l. (l, state s)) (stateListeners s)\<rparr>"

text \<open>The own properties of the fixed table \<^verbatim>\<open>map\<close> of \<^verbatim>\<open>handleControlUpdate\<close>:
  wire control name to semantic field name. The handler reads the table as
  \<^verbatim>\<open>map[controlId]\<close>, through \<open>readSlot\<close>.\<close>

definition controlMap :: "string \<rightharpoonup> string" where
  "controlMap = map_of [
     (''HardwareState'', ''hardwareState''),
     (''hdmi.enabled.button'', ''screenPower''),
     (''pin.8.digital.out'', ''privacyGlass''),
     (''hdmi.out.1.select.hdmi.1'', ''didoOutput''),
     (''ZoneDimLevel1'', ''lightingLevel''),
     (''output.1.gain'', ''volumeLevel'')]"

text \<open>\<^verbatim>\<open>this.state[field] = v\<close> for the field names the table can yield.\<close>

definition setStateField :: "string \<Rightarrow> jsval \<Rightarrow> cachedState \<Rightarrow> cachedState" where
  "setStateField f v c =
     (if f = ''hardwareState'' then c\<lparr>hardwareState := v\<rparr>
      else if f = ''screenPower'' then c\<lparr>screenPower := v\<rparr>
      else if f = ''privacyGlass'' then c\<lparr>privacyGlass := v\<rparr>
      else if f = ''didoOutput'' then c\<lparr>didoOutput := v\<rparr>
      else if f = ''lightingLevel'' then c\<lparr>lightingLevel := v\<rparr>
      else if f = ''volumeLevel'' then c\<lparr>volumeLevel := v\<rparr>
      else c)"

text \<open>\<^verbatim>\<open>x.string || x.value\<close>: the payload handed to \<^verbatim>\<open>JSON.parse\<close>.\<close>

definition payloadOf :: "jsval \<Rightarrow> error + jsval" where
  "payloadOf x =
     bindE (getProp x ''string'') (\<lambda>str.
       if truthy str then Inr str else getProp x ''value'')"

text \<open>
  The body of the \<^verbatim>\<open>try\<close> block shared by both update handlers:
  \<^verbatim>\<open>JSON.parse(x.string || x.value).sources\<close>. \<^verbatim>\<open>JSON.parse\<close> is the language's
  built-in; it is a parameter \<open>parse\<close> that maps its argument to the parsed value or to
  the SyntaxError it throws.
\<close>

definition parseSources :: "(jsval \<Rightarrow> error + jsval) \<Rightarrow> jsval \<Rightarrow> error + jsval" where
  "parseSources parse x =
     bindE (payloadOf x) (\<lambda>payload.
     bindE (parse payload) (\<lambda>parsed.
     getProp parsed ''sources''))"

text \<open>
  What \<^verbatim>\<open>JSON.parse\<close> does on the payloads of the examples in this theory: the text
  \<^verbatim>\<open>{}\<close> parses to the empty object and \<^verbatim>\<open>null\<close> to \<^verbatim>\<open>null\<close>; the text \<^verbatim>\<open>{bad\<close>
  is not JSON. The examples use it on no other payload.
\<close>

definition sampleParse :: "jsval \<Rightarrow> error + jsval" where
  "sampleParse p =
     (if p = JStr ''{}'' then Inr (JObj [])
      else if p = JStr ''null'' then Inr JNull
      else Inl SyntaxError)"

text \<open>An inbound \<^verbatim>\<open>control:update\<close> event, destructured.\<close>

record controlUpdate =
  controlId :: string
  control :: jsval

text \<open>
  \<^verbatim>\<open>handleControlUpdate(data)\<close> at time \<open>now\<close>. An exception that escapes the handler
  is the result \<open>Inl\<close>. The table \<^verbatim>\<open>map\<close> is read as \<^verbatim>\<open>map[controlId]\<close>: under an
  inherited name the read yields a built-in, which is truthy, so the branch is taken and
  \<^verbatim>\<open>control.value\<close> is stored in \<^verbatim>\<open>this.state\<close> under the text of that built-in.
\<close>

definition handleControlUpdate ::
  "(jsval \<Rightarrow> error + jsval) \<Rightarrow> int \<Rightarrow> controlUpdate \<Rightarrow> wsManager \<Rightarrow> error + wsManager" where
  "handleControlUpdate parse now data s =
     bindE
       (if controlId data = ''ConnectedSources'' then
          (case parseSources parse (control data) of
             Inr v \<Rightarrow> Inr (s\<lparr>state := (state s)\<lparr>connectedSources := v\<rparr>\<rparr>)
           | Inl e \<Rightarrow> Inr s)
        else
          (case readSlot controlMap (controlId data) of
             Own f \<Rightarrow>
               bindE (getProp (control data) ''value'') (\<lambda>v.
                 Inr (s\<lparr>state := setStateField f v (state s)\<rparr>))
           | Inherited b \<Rightarrow>
               bindE (getProp (control data) ''value'') (\<lambda>v.
                 Inr (s\<lparr>strayState := upsert b v (strayState s)\<rparr>))
           | Missing \<Rightarrow> Inr s))
       (\<lambda>s1. Inr (notifyStateChange (s1\<lparr>state := (state s1)\<lparr>timestamp := now\<rparr>\<rparr>)))"

text \<open>\<^verbatim>\<open>data.component?.controls\<close>, \<^verbatim>\<open>data.component?.id\<close>: only a \<^verbatim>\<open>data\<close> that is
  itself \<^verbatim>\<open>undefined\<close> or \<^verbatim>\<open>null\<close> makes the read throw.\<close>

definition componentField :: "jsval \<Rightarrow> string \<Rightarrow> error + jsval" where
  "componentField data k =
     bindE (getProp data ''component'') (\<lambda>cv.
       case cv of
         JUndefined \<Rightarrow> Inr JUndefined
       | JNull \<Rightarrow> Inr JUndefined
       | _ \<Rightarrow> getProp cv k)"

text \<open>\<^verbatim>\<open>if (c[k]) this.state.f = c[k].value\<close>: \<open>c\<close> is truthy here, so the reads cannot
  throw.\<close>

definition copyControl ::
  "jsval \<Rightarrow> string \<Rightarrow> string \<Rightarrow> cachedState \<Rightarrow> cachedState" where
  "copyControl c k f st =
     (let x = getPropOpt c k
      in if truthy x then setStateField f (getPropOpt x ''value'') st else st)"

text \<open>\<^verbatim>\<open>handleComponentState(data)\<close> at time \<open>now\<close>, for the payload \<open>data\<close> of an
  inbound \<^verbatim>\<open>component:state\<close> event.\<close>

definition handleComponentState ::
  "(jsval \<Rightarrow> error + jsval) \<Rightarrow> int \<Rightarrow> jsval \<Rightarrow> wsManager \<Rightarrow> error + wsManager" where
  "handleComponentState parse now data s =
     bindE (componentField data ''controls'') (\<lambda>c.
       if \<not> truthy c then Inr s
       else
         let st1 = copyControl c ''HardwareState'' ''hardwareState'' (state s);
             cs = getPropOpt c ''ConnectedSources'';
             st2 = (if truthy cs then
                      (case parseSources parse cs of
                         Inr v \<Rightarrow> st1\<lparr>connectedSources := v\<rparr>
                       | Inl e \<Rightarrow> st1)
                    else st1);
             st3 = copyControl c ''hdmi.enabled.button'' ''screenPower'' st2;
             st4 = copyControl c ''pin.8.digital.out'' ''privacyGlass'' st3;
             st5 = copyControl c ''hdmi.out.1.select.hdmi.1'' ''didoOutput'' st4;
             st6 = copyControl c ''ZoneDimLevel1'' ''lightingLevel'' st5;
             st7 = copyControl c ''output.1.gain'' ''volumeLevel'' st6
         in Inr (notifyStateChange (s\<lparr>state := st7\<lparr>timestamp := now\<rparr>\<rparr>)))"

text \<open>
  \<^verbatim>\<open>getState()\<close> is an async function. Its synchronous part, run at time \<open>now\<close>, either
  returns the cache at once or emits the refresh request and suspends on a 100 ms timer;
  \<open>getStateResume\<close> is the continuation the timer runs, which returns \<^verbatim>\<open>this.state\<close>
  as it is then. Emitting needs \<^verbatim>\<open>this.socket\<close> and \<^verbatim>\<open>this.config\<close>, which are
  \<^verbatim>\<open>null\<close> until \<^verbatim>\<open>init\<close> has been called.
\<close>

datatype getStateStep =
    Return cachedState
  | Wait int

definition getState :: "int \<Rightarrow> wsManager \<Rightarrow> error + (getStateStep \<times> wsManager)" where
  "getState now s =
     (if now - timestamp (state s) > TTL (state s) then
        (case socket s of
           None \<Rightarrow> Inl TypeError
         | Some sock \<Rightarrow>
             (case config s of
                None \<Rightarrow> Inl TypeError
              | Some cfg \<Rightarrow>
                  Inr (Wait 100,
                       s\<lparr>socket := Some (emitOn (ControllerSubscribe (controllerId cfg)) sock)\<rparr>)))
      else Inr (Return (state s), s))"

definition getStateResume :: "wsManager \<Rightarrow> cachedState" where
  "getStateResume s = state s"

section \<open>Health report\<close>

text \<open>The object returned by \<^verbatim>\<open>getConnectionHealth()\<close>.\<close>

record healthReport =
  hrHealth :: string
  hrConnected :: bool
  hrIdentified :: bool
  hrLastPingSent :: int
  hrLastPongReceived :: int
  hrTimeSinceLastPong :: int
  hrMissedPongs :: int
  hrLatency :: int

text \<open>\<^verbatim>\<open>Math.round(t / 1000)\<close> for an integer \<open>t\<close>: halves round towards plus infinity.\<close>

definition roundSeconds :: "int \<Rightarrow> int" where
  "roundSeconds t = (t + 500) div 1000"

text \<open>\<^verbatim>\<open>getConnectionHealth()\<close> at time \<open>now\<close>; the manager is returned as the call
  leaves it.\<close>

definition getConnectionHealth :: "int \<Rightarrow> wsManager \<Rightarrow> healthReport \<times> wsManager" where
  "getConnectionHealth now s =
     (let timeSinceLastPong = now - lastPongReceived (health s);
          h0 = ''healthy'';
          h = (if \<not> isConnected s then ''disconnected''
               else if missedPongs (health s) \<ge> 2 then ''degraded''
               else if timeSinceLastPong > 60000 then ''stale''
               else h0)
      in (\<lparr> hrHealth = h,
             hrConnected = isConnected s,
             hrIdentified = isIdentified s,
             hrLastPingSent = lastPingSent (health s),
             hrLastPongReceived = lastPongReceived (health s),
             hrTimeSinceLastPong = roundSeconds timeSinceLastPong,
             hrMissedPongs = missedPongs (health s),
             hrLatency = latencyAverage s \<rparr>, s))"

section \<open>Backoff calculator\<close>

text \<open>The two \<^verbatim>\<open>CONFIG\<close> entries read by \<^verbatim>\<open>calculateBackoff\<close>; both come from
  \<^verbatim>\<open>parseInt\<close>.\<close>

record backoffConfig =
  reconnectionDelayBase :: int
  reconnectionDelayMax :: int

text \<open>
  \<^verbatim>\<open>calculateBackoff(attempt)\<close>, over the reals. \<open>rnd\<close> is the value that
  \<^verbatim>\<open>Math.random()\<close> returns in the call, a number in \<open>[0, 1)\<close>.
\<close>

definition calculateBackoff :: "backoffConfig \<Rightarrow> real \<Rightarrow> nat \<Rightarrow> real" where
  "calculateBackoff cfg rnd attempt =
     min (real_of_int (reconnectionDelayBase cfg) * 2 ^ attempt)
         (real_of_int (reconnectionDelayMax cfg))
     * (1 + rnd * 0.25)"

text \<open>
  The mean of the delay when \<^verbatim>\<open>Math.random()\<close> is uniform over the \<open>n\<close> equally spaced
  values \<open>0/n, 1/n, \<dots>, (n-1)/n\<close> of \<open>[0, 1)\<close>.
\<close>

definition expectedBackoff :: "nat \<Rightarrow> backoffConfig \<Rightarrow> nat \<Rightarrow> real" where
  "expectedBackoff n cfg attempt =
     (\<Sum>k<n. calculateBackoff cfg (real k / real n) attempt) / real n"

section \<open>Connection lifecycle and health monitor\<close>

text \<open>
  The socket that the call \<open>p\<close> of \<^verbatim>\<open>init\<close> creates, with the listeners that the call
  registers on it, in registration order.
\<close>

definition freshSocket :: "nat \<Rightarrow> socketState" where
  "freshSocket p = \<lparr>
     handlers = [(''connect'', InitListener p), (''disconnect'', InitListener p),
                 (''connect_error'', InitListener p), (''reconnect'', InitListener p),
                 (''reconnect_attempt'', InitListener p), (''reconnect_error'', InitListener p),
                 (''pong'', InitListener p), (''controller:status'', InitListener p),
                 (''digitaltwin:ready'', InitListener p), (''system:ready'', InitListener p),
                 (''control:update'', HandleControlUpdate),
                 (''component:state'', HandleComponentState)],
     outbox = [] \<rparr>"

text \<open>
  The synchronous part of \<^verbatim>\<open>init(config)\<close>: the configuration is stored, a new socket
  replaces \<^verbatim>\<open>this.socket\<close> (the socket it replaces keeps its listeners), the connection
  timer is set, and the listeners are registered. The number of the call, which is the
  number of the promise it returns, is the closure counter at the call. The two interval
  loops it starts are the runs of \<open>heartbeat\<close> and \<open>connectionMonitor\<close> below.
\<close>

definition init :: "config \<Rightarrow> wsManager \<Rightarrow> wsManager" where
  "init cfg s =
     s\<lparr>config := Some cfg,
       socket := Some (freshSocket (nextClosure s)),
       retired := retired s @ (case socket s of None \<Rightarrow> [] | Some old \<Rightarrow> [old]),
       timers := timers s @ [(ConnectTimer (nextClosure s), orDefault (connectionTimeout cfg) 20000)],
       nextClosure := Suc (nextClosure s)\<rparr>"

text \<open>\<^verbatim>\<open>disconnect()\<close>: if there is a socket it is told to disconnect and both flags
  are dropped. (The call also clears the two interval loops.)\<close>

definition disconnect :: "wsManager \<Rightarrow> wsManager" where
  "disconnect s =
     (case socket s of
        None \<Rightarrow> s
      | Some sock \<Rightarrow> s\<lparr>isConnected := False, isIdentified := False\<rparr>)"

text \<open>
  The socket's \<^verbatim>\<open>disconnect\<close> event handler: the flags and the controller status are
  dropped and the listeners of the two update events are removed from the socket.
\<close>

definition onDisconnect :: "wsManager \<Rightarrow> wsManager" where
  "onDisconnect s =
     s\<lparr>isConnected := False,
       isIdentified := False,
       controllerStatus := (controllerStatus s)\<lparr>statusConnected := False,
                                                 statusHealth := ''disconnected''\<rparr>,
       socket := map_option
         (\<lambda>sock. sock\<lparr>handlers :=
            filter (\<lambda>(ev, l). ev \<noteq> ''component:state'' \<and> ev \<noteq> ''control:update'')
                   (handlers sock)\<rparr>)
         (socket s)\<rparr>"

text \<open>
  \<^verbatim>\<open>reconnect()\<close> up to its first suspension: \<^verbatim>\<open>disconnect()\<close>, then the synchronous
  part of \<^verbatim>\<open>init(this.config)\<close>. The monitor only calls it after \<^verbatim>\<open>init\<close>, so the
  configuration is there; without one \<^verbatim>\<open>init\<close> throws on its first line, after
  \<^verbatim>\<open>disconnect()\<close> has run.
\<close>

definition reconnect :: "wsManager \<Rightarrow> error option \<times> wsManager" where
  "reconnect s =
     (let s1 = disconnect s
      in case config s1 of
           None \<Rightarrow> (Some TypeError, s1)
         | Some cfg \<Rightarrow> (None, init cfg s1))"

text \<open>The first lines of the socket's \<^verbatim>\<open>connect\<close> handler, before identification.\<close>

definition connectReset :: "int \<Rightarrow> wsManager \<Rightarrow> wsManager" where
  "connectReset now s =
     s\<lparr>isConnected := True,
       reconnectAttempt := 0,
       health := (health s)\<lparr>lastPongReceived := now, missedPongs := 0\<rparr>\<rparr>"

text \<open>The heartbeat loop's callback (every 25 s).\<close>

definition heartbeat :: "int \<Rightarrow> wsManager \<Rightarrow> wsManager" where
  "heartbeat now s =
     (case socket s of
        Some sock \<Rightarrow>
          if isConnected s then
            s\<lparr>health := (health s)\<lparr>lastPingSent := now\<rparr>,
              socket := Some (emitOn (Ping now) sock)\<rparr>
          else s
      | None \<Rightarrow> s)"

text \<open>The first two lines of the \<^verbatim>\<open>pong\<close> handler (the rest tracks latency).\<close>

definition onPong :: "int \<Rightarrow> wsManager \<Rightarrow> wsManager" where
  "onPong now s = s\<lparr>health := (health s)\<lparr>lastPongReceived := now, missedPongs := 0\<rparr>\<rparr>"

text \<open>
  The liveness checker's callback (every 30 s). The result says whether this run called
  \<^verbatim>\<open>this.reconnect()\<close>; a failure of that call is caught and logged.
\<close>

definition connectionMonitor :: "int \<Rightarrow> wsManager \<Rightarrow> bool \<times> wsManager" where
  "connectionMonitor now s =
     (if \<not> isConnected s then (False, s)
      else
        let timeSinceLastPong = now - lastPongReceived (health s)
        in if lastPingSent (health s) > lastPongReceived (health s)
              \<and> timeSinceLastPong > pongTimeout (health s)
           then
             let s1 = s\<lparr>health := (health s)\<lparr>missedPongs := missedPongs (health s) + 1\<rparr>\<rparr>
             in if missedPongs (health s1) \<ge> maxMissedPongs (health s1)
                then (True, snd (reconnect s1))
                else (False, s1)
           else (False, s))"

text \<open>
  Events of the health monitor's life: a run of the liveness checker, a run of the
  heartbeat, an inbound pong, and the socket's connect event. Each carries the time at
  which it runs.
\<close>

datatype healthEvent =
    MonitorRun int
  | HeartbeatRun int
  | PongArrives int
  | SocketConnects int

text \<open>
  Running the events in order. The result counts, besides the manager, the runs of the
  checker that incremented the counter and the runs that called \<^verbatim>\<open>reconnect\<close>.
\<close>

record healthTrace =
  manager :: wsManager
  missedRuns :: nat
  reconnectCalls :: nat

definition healthStep :: "healthTrace \<Rightarrow> healthEvent \<Rightarrow> healthTrace" where
  "healthStep t ev =
     (case ev of
        MonitorRun now \<Rightarrow>
          (let (called, s') = connectionMonitor now (manager t)
           in \<lparr> manager = s',
                missedRuns = missedRuns t +
                  (if missedPongs (health s') \<noteq> missedPongs (health (manager t)) then 1 else 0),
                reconnectCalls = reconnectCalls t + (if called then 1 else 0) \<rparr>)
      | HeartbeatRun now \<Rightarrow> t\<lparr>manager := heartbeat now (manager t)\<rparr>
      | PongArrives now \<Rightarrow> t\<lparr>manager := onPong now (manager t)\<rparr>
      | SocketConnects now \<Rightarrow> t\<lparr>manager := connectReset now (manager t)\<rparr>)"

definition healthRun :: "wsManager \<Rightarrow> healthEvent list \<Rightarrow> healthTrace" where
  "healthRun s evs = foldl healthStep \<lparr> manager = s, missedRuns = 0, reconnectCalls = 0 \<rparr> evs"

text \<open>
  The traces in which no pong ever arrives and the socket's connect event only fires
  while the manager is disconnected (as it does after a forced reconnect).
\<close>

fun noPongs :: "wsManager \<Rightarrow> healthEvent list \<Rightarrow> bool" where
  "noPongs s [] = True"
| "noPongs s (PongArrives now # evs) = False"
| "noPongs s (SocketConnects now # evs) =
     (\<not> isConnected s \<and> noPongs (connectReset now s) evs)"
| "noPongs s (MonitorRun now # evs) = noPongs (snd (connectionMonitor now s)) evs"
| "noPongs s (HeartbeatRun now # evs) = noPongs (heartbeat now s) evs"

section \<open>Identification\<close>

text \<open>
  A call that returns a promise is modelled by its executor, the part that runs before
  the call returns: the result is the number of the promise and the manager after the
  executor. An exception thrown by the executor rejects the promise.
\<close>

text \<open>
  \<^verbatim>\<open>identify()\<close>: the timer is set, the listener is registered with \<^verbatim>\<open>once\<close>, and the
  request is emitted.
\<close>

definition identify :: "wsManager \<Rightarrow> nat \<times> wsManager" where
  "identify s =
     (let n = nextClosure s;
          delay = (case config s of
                     None \<Rightarrow> 5000
                   | Some cfg \<Rightarrow> orDefault (identifyTimeout cfg) 5000);
          s1 = setTimeout (IdentifyTimer n) delay (s\<lparr>nextClosure := Suc n\<rparr>)
      in case socket s1 of
           None \<Rightarrow> (n, settle n (Rejected TypeError) s1)
         | Some sock \<Rightarrow>
             (n, s1\<lparr>socket := Some (emitOn ClientIdentify
                         (onEvent ''client:identify:success'' (OnIdentify n) sock))\<rparr>))"

text \<open>\<^verbatim>\<open>data.connection?.k\<close> for a \<^verbatim>\<open>data\<close> that is an object.\<close>

definition connectionField :: "jsval \<Rightarrow> string \<Rightarrow> jsval" where
  "connectionField data k = getPropOpt (getPropOpt data ''connection'') k"

text \<open>
  The listener of \<^verbatim>\<open>identify\<close> for \<^verbatim>\<open>client:identify:success\<close>: it clears the timer,
  marks the manager identified, copies the server identity from the event and resolves
  the promise with the event. Reading the identity from an event that is \<^verbatim>\<open>undefined\<close>
  or \<^verbatim>\<open>null\<close> throws, after the timer has been cleared and the flag set.
\<close>

definition onIdentify :: "nat \<Rightarrow> jsval \<Rightarrow> wsManager \<Rightarrow> error option \<times> wsManager" where
  "onIdentify n data s =
     (let s1 = (clearTimeout (IdentifyTimer n) s)\<lparr>isIdentified := True\<rparr>
      in case getProp data ''socketId'' of
           Inl e \<Rightarrow> (Some e, s1)
         | Inr sid \<Rightarrow>
             (None,
              settle n (Resolved data)
                (s1\<lparr>serverIdentity :=
                     \<lparr> socketId = sid,
                       clientId = getPropOpt data ''clientId'',
                       serverTime = getPropOpt data ''serverTime'',
                       transport = connectionField data ''transport'',
                       ipAddress = connectionField data ''ipAddress'',
                       connectedAt = connectionField data ''connectedAt'' \<rparr>\<rparr>)))"

text \<open>The timer callback of \<^verbatim>\<open>identify\<close>: the promise is rejected. The listener stays
  registered.\<close>

definition onIdentifyTimeout :: "nat \<Rightarrow> wsManager \<Rightarrow> wsManager" where
  "onIdentifyTimeout n s = settle n (Rejected IdentificationTimeout) s"

section \<open>Discovery\<close>

text \<open>\<^verbatim>\<open>s.includes(p)\<close> on strings.\<close>

fun startsWith :: "string \<Rightarrow> string \<Rightarrow> bool" where
  "startsWith s [] = True"
| "startsWith [] (p # ps) = False"
| "startsWith (c # cs) (p # ps) = (c = p \<and> startsWith cs ps)"

fun includesStr :: "string \<Rightarrow> string \<Rightarrow> bool" where
  "includesStr [] p = (p = [])"
| "includesStr (c # cs) p = (startsWith (c # cs) p \<or> includesStr cs p)"

text \<open>The fixed role patterns of \<^verbatim>\<open>discoverComponents\<close>.\<close>

definition patterns :: "(string \<times> string list) list" where
  "patterns = [
     (''videoWall'', [''BUControl'', ''Video Wall'']),
     (''hdmiDisplay'', [''Generic_HDMI_Display'']),
     (''gpio'', [''GPIO_Out_Core-Maktabi'']),
     (''hdmiDecoder'', [''HDMI_I/ODecoder'']),
     (''lighting'', [''LutronLEAPZone'']),
     (''mixer'', [''Mixer_8x8_2''])]"

text \<open>\<^verbatim>\<open>this.components[key] = id\<close> for one of the six role keys.\<close>

definition setRole ::
  "string \<Rightarrow> string \<Rightarrow> (string \<times> string option) list \<Rightarrow> (string \<times> string option) list" where
  "setRole key v roles = map (\<lambda>(k, old). if k = key then (k, Some v) else (k, old)) roles"

text \<open>\<^verbatim>\<open>comp.controls || {}\<close>.\<close>

definition controlsOrEmpty :: "jsval \<Rightarrow> jsval" where
  "controlsOrEmpty c = jsOr c (JObj [])"

text \<open>
  The directory record that the discovery listener builds for an entry \<^verbatim>\<open>[id, comp]\<close>
  of the response, with the key it is stored under: the component's name as a property
  key. Reading the name of a component that is \<^verbatim>\<open>undefined\<close> or \<^verbatim>\<open>null\<close> throws, and so
  does the conversion of a name that has no string form.
\<close>

definition recordOf :: "string \<times> jsval \<Rightarrow> error + (string \<times> componentRecord)" where
  "recordOf e =
     bindE (getProp (snd e) ''name'') (\<lambda>nm.
     bindE (toStringJs nm) (\<lambda>key.
       Inr (key, \<lparr> compId = fst e, compName = nm,
                   compControls = controlsOrEmpty (getPropOpt (snd e) ''controls'') \<rparr>)))"

text \<open>The first \<^verbatim>\<open>forEach\<close>: every entry is stored in the directory under its name, up
  to the first entry that throws.\<close>

fun storeComponents ::
  "(string \<times> componentRecord) list \<Rightarrow> (string \<times> jsval) list
     \<Rightarrow> error option \<times> (string \<times> componentRecord) list" where
  "storeComponents dir [] = (None, dir)"
| "storeComponents dir (e # es) =
     (case recordOf e of
        Inl err \<Rightarrow> (Some err, dir)
      | Inr (key, r) \<Rightarrow> storeComponents (writeSlot dir key r) es)"

text \<open>
  \<^verbatim>\<open>c.name.includes(p)\<close>: a substring test on a string, a membership test on an array,
  and a TypeError on every other name.
\<close>

definition nameIncludes :: "jsval \<Rightarrow> string \<Rightarrow> error + bool" where
  "nameIncludes c p =
     bindE (getProp c ''name'') (\<lambda>nm.
       case nm of
         JStr s \<Rightarrow> Inr (includesStr s p)
       | JArr xs \<Rightarrow> Inr (JStr p \<in> set xs)
       | _ \<Rightarrow> Inl TypeError)"

text \<open>\<^verbatim>\<open>names.some(p => c.name.includes(p))\<close>.\<close>

fun someIncludes :: "jsval \<Rightarrow> string list \<Rightarrow> error + bool" where
  "someIncludes c [] = Inr False"
| "someIncludes c (p # ps) =
     (case nameIncludes c p of
        Inl e \<Rightarrow> Inl e
      | Inr True \<Rightarrow> Inr True
      | Inr False \<Rightarrow> someIncludes c ps)"

text \<open>\<^verbatim>\<open>entries.find(([, c]) => names.some(\<dots>))\<close>.\<close>

fun findEntry :: "string list \<Rightarrow> (string \<times> jsval) list \<Rightarrow> error + (string \<times> jsval) option" where
  "findEntry names [] = Inr None"
| "findEntry names (e # es) =
     (case someIncludes (snd e) names of
        Inl err \<Rightarrow> Inl err
      | Inr True \<Rightarrow> Inr (Some e)
      | Inr False \<Rightarrow> findEntry names es)"

text \<open>The second \<^verbatim>\<open>forEach\<close>: each role in turn takes the id of the first entry whose
  name includes one of the role's patterns, up to the first test that throws.\<close>

fun resolveRoles ::
  "(string \<times> jsval) list \<Rightarrow> (string \<times> string option) list \<Rightarrow> (string \<times> string list) list
     \<Rightarrow> error option \<times> (string \<times> string option) list" where
  "resolveRoles entries roles [] = (None, roles)"
| "resolveRoles entries roles (pat # pats) =
     (case findEntry (snd pat) entries of
        Inl err \<Rightarrow> (Some err, roles)
      | Inr None \<Rightarrow> resolveRoles entries roles pats
      | Inr (Some found) \<Rightarrow> resolveRoles entries (setRole (fst pat) (fst found) roles) pats)"

text \<open>\<^verbatim>\<open>Object.values(this.components).filter(Boolean)\<close>.\<close>

definition knownIds :: "(string \<times> string option) list \<Rightarrow> string list" where
  "knownIds roles = concat (map (\<lambda>(k, v). case v of Some i \<Rightarrow> (if i \<noteq> [] then [i] else []) | None \<Rightarrow> []) roles)"

text \<open>The value \<^verbatim>\<open>discoverComponents()\<close> resolves with.\<close>

definition discoveryResult :: "bool \<Rightarrow> nat \<Rightarrow> jsval" where
  "discoveryResult ok n = JObj [(''success'', JBool ok), (''componentCount'', JNum (int n))]"

text \<open>\<^verbatim>\<open>discoverComponents()\<close>: the timer is set, the listener is registered with
  \<^verbatim>\<open>once\<close>, and the request is emitted.\<close>

definition discoverComponents :: "wsManager \<Rightarrow> nat \<times> wsManager" where
  "discoverComponents s =
     (let n = nextClosure s;
          delay = (case config s of
                     None \<Rightarrow> 10000
                   | Some cfg \<Rightarrow> orDefault (discoveryTimeout cfg) 10000);
          s1 = setTimeout (DiscoveryTimer n) delay (s\<lparr>nextClosure := Suc n\<rparr>)
      in case socket s1 of
           None \<Rightarrow> (n, settle n (Rejected TypeError) s1)
         | Some sock \<Rightarrow>
             (let sock1 = onEvent ''controller:state'' (OnControllerState n) sock
              in case config s1 of
                   None \<Rightarrow> (n, settle n (Rejected TypeError) (s1\<lparr>socket := Some sock1\<rparr>))
                 | Some cfg \<Rightarrow>
                     (n, s1\<lparr>socket := Some
                           (emitOn (ControllerSubscribe (controllerId cfg)) sock1)\<rparr>)))"

text \<open>The last \<^verbatim>\<open>forEach\<close> of the listener: a \<^verbatim>\<open>component:subscribe\<close> request for every
  known component id.\<close>

definition subscribeKnown :: "wsManager \<Rightarrow> error option \<times> wsManager" where
  "subscribeKnown s =
     (let ids = knownIds (components s)
      in if ids = [] then (None, s)
         else
           (case (socket s, config s) of
              (Some sock, Some cfg) \<Rightarrow>
                (None, s\<lparr>socket := Some (sock\<lparr>outbox := outbox sock @
                            map (ComponentSubscribe (controllerId cfg)) ids\<rparr>)\<rparr>)
            | _ \<Rightarrow> (Some TypeError, s)))"

text \<open>
  The listener of \<^verbatim>\<open>discoverComponents\<close> for \<^verbatim>\<open>controller:state\<close>, run at time \<open>now\<close>.
  It clears the timer first; an exception thrown after that leaves the promise
  unsettled and the manager as far as the listener got.
\<close>

definition onControllerState ::
  "nat \<Rightarrow> int \<Rightarrow> jsval \<Rightarrow> wsManager \<Rightarrow> error option \<times> wsManager" where
  "onControllerState n now data s =
     (let s1 = clearTimeout (DiscoveryTimer n) s
      in case getProp data ''components'' of
           Inl e \<Rightarrow> (Some e, s1)
         | Inr comps \<Rightarrow>
             if \<not> truthy comps then (None, settle n (Resolved (discoveryResult False 0)) s1)
             else
               (let up = (getPropOpt data ''connected'' \<noteq> JBool False);
                    s2 = s1\<lparr>controllerStatus :=
                              \<lparr> statusConnected = up,
                                statusHealth = (if up then ''healthy'' else ''disconnected''),
                                lastUpdate = now \<rparr>\<rparr>;
                    entries = entriesOf comps;
                    (e1, dir) = storeComponents (discoveredList s2) entries;
                    s3 = s2\<lparr>discoveredList := dir\<rparr>
                in case e1 of
                     Some e \<Rightarrow> (Some e, s3)
                   | None \<Rightarrow>
                       (let (e2, roles) = resolveRoles entries (components s3) patterns;
                            s4 = s3\<lparr>components := roles\<rparr>
                        in case e2 of
                             Some e \<Rightarrow> (Some e, s4)
                           | None \<Rightarrow>
                               (case subscribeKnown s4 of
                                  (Some e, s5) \<Rightarrow> (Some e, s5)
                                | (None, s5) \<Rightarrow>
                                    (None,
                                     settle n (Resolved (discoveryResult True (length entries)))
                                       s5)))))"

text \<open>The timer callback of \<^verbatim>\<open>discoverComponents\<close>: the promise is resolved with an
  unsuccessful result. The listener stays registered.\<close>

definition onDiscoveryTimeout :: "nat \<Rightarrow> wsManager \<Rightarrow> wsManager" where
  "onDiscoveryTimeout n s = settle n (Resolved (discoveryResult False 0)) s"

section \<open>The connect handler\<close>

text \<open>\<^verbatim>\<open>await promise\<close> in the connect handler that settles \<open>p\<close>: the handler is
  suspended until the promise is settled, or made runnable at once if it is already.\<close>

definition await :: "nat \<Rightarrow> stage \<Rightarrow> nat \<Rightarrow> wsManager \<Rightarrow> wsManager" where
  "await n st p s =
     (case outcomeOf n s of
        None \<Rightarrow> s\<lparr>tasks := tasks s @ [\<lparr> awaits = n, stage = st, settles = p \<rparr>]\<rparr>
      | Some r \<Rightarrow> s\<lparr>runnable := runnable s @ [(\<lparr> awaits = n, stage = st, settles = p \<rparr>, r)]\<rparr>)"

text \<open>
  The socket's \<^verbatim>\<open>connect\<close> listener, registered by the call \<open>p\<close> of \<^verbatim>\<open>init\<close>, up to its
  first suspension: the connection timer is cleared, the flags and the health are reset,
  and identification is started.
\<close>

definition onConnect :: "nat \<Rightarrow> int \<Rightarrow> wsManager \<Rightarrow> wsManager" where
  "onConnect p now s =
     (let (n, s1) = identify (connectReset now (clearTimeout (ConnectTimer p) s))
      in await n AfterIdentify p s1)"

text \<open>\<^verbatim>\<open>!discovery.success || discovery.componentCount === 0\<close>.\<close>

definition foundNothing :: "jsval \<Rightarrow> bool" where
  "foundNothing v \<longleftrightarrow>
     \<not> truthy (getPropOpt v ''success'') \<or> getPropOpt v ''componentCount'' = JNum 0"

text \<open>
  The wait for the ready signal: a promise whose executor registers a listener for
  \<^verbatim>\<open>digitaltwin:ready\<close> with \<^verbatim>\<open>once\<close> and sets a timer of 30 seconds; either resolves
  it, and neither removes the other.
\<close>

definition waitForReady :: "wsManager \<Rightarrow> nat \<times> wsManager" where
  "waitForReady s =
     (let n = nextClosure s;
          s1 = s\<lparr>nextClosure := Suc n\<rparr>
      in case socket s1 of
           None \<Rightarrow> (n, settle n (Rejected TypeError) s1)
         | Some sock \<Rightarrow>
             (n, setTimeout (ReadyTimer n) 30000
                   (s1\<lparr>socket := Some (onEvent ''digitaltwin:ready'' (OnReady n) sock)\<rparr>)))"

text \<open>
  The connect handler resumed with the outcome of the promise it awaited. A rejection
  is caught and rejects the \<^verbatim>\<open>init\<close> promise. Otherwise the handler goes on to its next
  suspension or resolves the \<^verbatim>\<open>init\<close> promise.
\<close>

definition resume :: "wsManager \<Rightarrow> task \<times> outcome \<Rightarrow> wsManager" where
  "resume s tr =
     (case snd tr of
        Rejected e \<Rightarrow> settle (settles (fst tr)) (Rejected e) s
      | Resolved v \<Rightarrow>
          (case stage (fst tr) of
             AfterIdentify \<Rightarrow>
               (let (n, s1) = discoverComponents s
                in await n AfterDiscovery (settles (fst tr)) s1)
           | AfterDiscovery \<Rightarrow>
               if foundNothing v then
                 (let (n, s1) = waitForReady s
                  in await n AfterReady (settles (fst tr)) s1)
               else settle (settles (fst tr)) (Resolved JUndefined) s
           | AfterReady \<Rightarrow>
               (let (n, s1) = discoverComponents s
                in await n AfterRetry (settles (fst tr)) s1)
           | AfterRetry \<Rightarrow> settle (settles (fst tr)) (Resolved JUndefined) s))"

text \<open>
  The microtask queue: when a handler has returned, the connect handlers that have
  become runnable are resumed one after the other, in the order in which they became
  runnable, until none is left. \<open>backlog\<close> counts the suspensions that the handlers in
  flight still have before them; every resumption lowers it.
\<close>

fun stageWeight :: "stage \<Rightarrow> nat" where
  "stageWeight AfterIdentify = 4"
| "stageWeight AfterDiscovery = 3"
| "stageWeight AfterReady = 2"
| "stageWeight AfterRetry = 1"

definition backlog :: "wsManager \<Rightarrow> nat" where
  "backlog s =
     sum_list (map (\<lambda>tr. stageWeight (stage (fst tr))) (runnable s))
     + sum_list (map (\<lambda>t. stageWeight (stage t)) (tasks s))"

function drain :: "wsManager \<Rightarrow> wsManager" where
  "drain s =
     (case runnable s of
        [] \<Rightarrow> s
      | tr # rest \<Rightarrow> drain (resume (s\<lparr>runnable := rest\<rparr>) tr))"
  by pat_completeness auto
termination
proof (relation "measure backlog")
  show "wf (measure backlog)"
    by simp
next
  fix s :: wsManager and tr rest
  assume run: "runnable s = tr # rest"
  have part: "sum_list (map f (filter P xs)) + sum_list (map f (filter (\<lambda>x. \<not> P x) xs))
      = sum_list (map f xs)" for f :: "task \<Rightarrow> nat" and P xs
    by (induction xs) auto
  have settle_backlog: "backlog (settle n r t) = backlog t" for n r t
    using part [of "\<lambda>t. stageWeight (stage t)" "\<lambda>u. awaits u = n" "tasks t"]
    by (simp add: settle_def backlog_def comp_def)
  have await_backlog: "backlog (await n st p t) = backlog t + stageWeight st" for n st p t
    by (simp add: await_def backlog_def split: option.splits)
  have frame: "backlog (t\<lparr>socket := x\<rparr>) = backlog t"
    "backlog (t\<lparr>nextClosure := k\<rparr>) = backlog t"
    "backlog (setTimeout h d t) = backlog t" for t x k h d
    by (simp_all add: backlog_def setTimeout_def)
  have discover_backlog: "backlog (snd (discoverComponents t)) = backlog t" for t
    by (simp add: discoverComponents_def Let_def settle_backlog frame split: option.splits)
  have wait_backlog: "backlog (snd (waitForReady t)) = backlog t" for t
    by (simp add: waitForReady_def Let_def settle_backlog frame split: option.splits)
  have less: "backlog (s\<lparr>runnable := rest\<rparr>) + stageWeight (stage (fst tr)) = backlog s"
    using run by (simp add: backlog_def)
  have "backlog (resume (s\<lparr>runnable := rest\<rparr>) tr) < backlog s"
  proof (cases "snd tr")
    case (Rejected e)
    then show ?thesis
      using less settle_backlog [of "settles (fst tr)" "Rejected e" "s\<lparr>runnable := rest\<rparr>"]
      by (cases "stage (fst tr)") (simp_all add: resume_def)
  next
    case (Resolved v)
    show ?thesis
    proof (cases "stage (fst tr)")
      case AfterIdentify
      then show ?thesis
        using Resolved less
          await_backlog [of "fst (discoverComponents (s\<lparr>runnable := rest\<rparr>))" AfterDiscovery
            "settles (fst tr)" "snd (discoverComponents (s\<lparr>runnable := rest\<rparr>))"]
          discover_backlog [of "s\<lparr>runnable := rest\<rparr>"]
        by (simp add: resume_def split_beta Let_def)
    next
      case AfterDiscovery
      then show ?thesis
        using Resolved less
          await_backlog [of "fst (waitForReady (s\<lparr>runnable := rest\<rparr>))" AfterReady
            "settles (fst tr)" "snd (waitForReady (s\<lparr>runnable := rest\<rparr>))"]
          wait_backlog [of "s\<lparr>runnable := rest\<rparr>"]
          settle_backlog [of "settles (fst tr)" "Resolved JUndefined" "s\<lparr>runnable := rest\<rparr>"]
        by (simp add: resume_def split_beta Let_def)
    next
      case AfterReady
      then show ?thesis
        using Resolved less
          await_backlog [of "fst (discoverComponents (s\<lparr>runnable := rest\<rparr>))" AfterRetry
            "settles (fst tr)" "snd (discoverComponents (s\<lparr>runnable := rest\<rparr>))"]
          discover_backlog [of "s\<lparr>runnable := rest\<rparr>"]
        by (simp add: resume_def split_beta Let_def)
    next
      case AfterRetry
      then show ?thesis
        using Resolved less
          settle_backlog [of "settles (fst tr)" "Resolved JUndefined" "s\<lparr>runnable := rest\<rparr>"]
        by (simp add: resume_def)
    qed
  qed
  then show "(resume (s\<lparr>runnable := rest\<rparr>) tr, s) \<in> measure backlog"
    by simp
qed

text \<open>The listener that \<^verbatim>\<open>init\<close> registers for \<^verbatim>\<open>digitaltwin:ready\<close>: it reads two
  fields of the event for the log, and starts a discovery if the directory has no
  entry.\<close>

definition onDigitalTwinReady :: "jsval \<Rightarrow> wsManager \<Rightarrow> error option \<times> wsManager" where
  "onDigitalTwinReady data s =
     (case getProp data ''controllers'' of
        Inl e \<Rightarrow> (Some e, s)
      | Inr c \<Rightarrow>
          if discoveredList s = [] then (None, snd (discoverComponents s))
          else (None, s))"

text \<open>The listener that the wait for the ready signal registers, and the callback of
  its timer: both resolve the wait.\<close>

definition onReady :: "nat \<Rightarrow> wsManager \<Rightarrow> wsManager" where
  "onReady n s = settle n (Resolved JUndefined) s"

text \<open>The socket's \<^verbatim>\<open>connect_error\<close> listener, registered by the call \<open>p\<close> of
  \<^verbatim>\<open>init\<close>, and the callback of the connection timer.\<close>

definition onConnectError :: "nat \<Rightarrow> wsManager \<Rightarrow> wsManager" where
  "onConnectError p s = settle p (Rejected ConnectError) (clearTimeout (ConnectTimer p) s)"

definition onConnectTimeout :: "nat \<Rightarrow> wsManager \<Rightarrow> wsManager" where
  "onConnectTimeout p s = settle p (Rejected ConnectionTimeout) s"

section \<open>Commands\<close>

text \<open>
  The component a command is sent to: the key itself if it contains a hyphen, else
  \<^verbatim>\<open>this.components[componentKey]\<close>, which must be truthy. The role table is a plain
  object, so under an inherited name the read yields a built-in and the command is sent.
\<close>

definition resolveTarget :: "string \<Rightarrow> wsManager \<Rightarrow> target option" where
  "resolveTarget key s =
     (if CHR ''-'' \<in> set key then Some (Component key)
      else
        (case readSlot (map_of (components s)) key of
           Own (Some i) \<Rightarrow> if i \<noteq> [] then Some (Component i) else None
         | Own None \<Rightarrow> None
         | Inherited b \<Rightarrow> Some (Builtin b)
         | Missing \<Rightarrow> None))"

text \<open>
  \<^verbatim>\<open>sendControl(componentKey, controlId, value)\<close>; \<open>txn\<close> is the transaction id that the
  call generates from the clock and a random UUID.
\<close>

definition sendControl ::
  "string \<Rightarrow> string \<Rightarrow> jsval \<Rightarrow> string \<Rightarrow> wsManager \<Rightarrow> nat \<times> wsManager" where
  "sendControl key cid v txn s =
     (let n = nextClosure s;
          s0 = s\<lparr>nextClosure := Suc n\<rparr>
      in if \<not> isConnected s \<or> \<not> isIdentified s then (n, settle n (Rejected NotConnected) s0)
         else
           (case resolveTarget key s of
              None \<Rightarrow> (n, settle n (Rejected (ComponentNotFound key)) s0)
            | Some tgt \<Rightarrow>
                (let delay = (case config s of
                                None \<Rightarrow> 10000
                              | Some cfg \<Rightarrow> orDefault (commandTimeout cfg) 10000);
                     s1 = setTimeout (CommandTimer n txn) delay s0
                 in case socket s1 of
                      None \<Rightarrow> (n, settle n (Rejected TypeError) s1)
                    | Some sock \<Rightarrow>
                        (let sock1 = onEvent ''control:set:error'' (OnError n txn)
                                       (onEvent ''control:set:success'' (OnSuccess n txn) sock)
                         in case config s1 of
                              None \<Rightarrow>
                                (n, settle n (Rejected TypeError) (s1\<lparr>socket := Some sock1\<rparr>))
                            | Some cfg \<Rightarrow>
                                (n, s1\<lparr>socket := Some
                                      (emitOn (ControlSet (controllerId cfg) tgt cid v txn)
                                         sock1)\<rparr>)))))"

text \<open>
  The closure \<^verbatim>\<open>cleanup\<close> of the command \<open>n\<close>: both listeners of the command are
  taken off \<^verbatim>\<open>this.socket\<close>, which is read when the closure runs.
\<close>

definition cleanup :: "nat \<Rightarrow> string \<Rightarrow> wsManager \<Rightarrow> error option \<times> wsManager" where
  "cleanup n txn s =
     (case socket s of
        None \<Rightarrow> (Some TypeError, s)
      | Some sock \<Rightarrow>
          (None, off ''control:set:error'' (OnError n txn)
                   (off ''control:set:success'' (OnSuccess n txn) s)))"

text \<open>The closure \<^verbatim>\<open>onSuccess\<close> of the command \<open>n\<close>, called with the event \<open>d\<close>.\<close>

definition onSuccess :: "nat \<Rightarrow> string \<Rightarrow> jsval \<Rightarrow> wsManager \<Rightarrow> error option \<times> wsManager" where
  "onSuccess n txn d s =
     (case getProp d ''transactionId'' of
        Inl e \<Rightarrow> (Some e, s)
      | Inr t \<Rightarrow>
          if t = JStr txn then
            (case cleanup n txn (clearTimeout (CommandTimer n txn) s) of
               (Some e, s1) \<Rightarrow> (Some e, s1)
             | (None, s1) \<Rightarrow>
                 (None,
                  settle n (Resolved (JObj [(''success'', JBool True),
                                            (''transactionId'', JStr txn)])) s1))
          else (None, s))"

text \<open>The closure \<^verbatim>\<open>onError\<close> of the command \<open>n\<close>, called with the event \<open>d\<close>; the
  error carries \<^verbatim>\<open>d.message || d.error || 'Command failed'\<close>.\<close>

definition onError :: "nat \<Rightarrow> string \<Rightarrow> jsval \<Rightarrow> wsManager \<Rightarrow> error option \<times> wsManager" where
  "onError n txn d s =
     (case getProp d ''transactionId'' of
        Inl e \<Rightarrow> (Some e, s)
      | Inr t \<Rightarrow>
          if t = JStr txn then
            (case cleanup n txn (clearTimeout (CommandTimer n txn) s) of
               (Some e, s1) \<Rightarrow> (Some e, s1)
             | (None, s1) \<Rightarrow>
                 (None,
                  settle n (Rejected (CommandFailed
                    (jsOr (getPropOpt d ''message'')
                       (jsOr (getPropOpt d ''error'') (JStr ''Command failed''))))) s1))
          else (None, s))"

text \<open>The timer callback of the command \<open>n\<close>: \<^verbatim>\<open>cleanup()\<close>, then the promise is
  rejected. An exception thrown by \<^verbatim>\<open>cleanup\<close> escapes the callback.\<close>

definition onCommandTimeout :: "nat \<Rightarrow> string \<Rightarrow> wsManager \<Rightarrow> wsManager" where
  "onCommandTimeout n txn s =
     (case cleanup n txn s of
        (Some e, s1) \<Rightarrow> s1\<lparr>uncaught := uncaught s1 @ [e]\<rparr>
      | (None, s1) \<Rightarrow> settle n (Rejected CommandTimeout) s1)"

section \<open>Component subscriptions\<close>

text \<open>
  What a call of \<^verbatim>\<open>subscribeToComponent\<close> returns: a promise rejected with
  \<^verbatim>\<open>Not connected\<close>; a promise resolved with what \<^verbatim>\<open>watched[componentId]\<close> yields,
  a stored record or the built-in inherited under that name; or the promise \<open>n\<close> of a
  subscription that has been requested.
\<close>

datatype subscription =
    Refused
  | Cached watchRecord
  | CachedBuiltin string
  | Subscribing nat

text \<open>\<^verbatim>\<open>subscribeToComponent(componentId)\<close>.\<close>

definition subscribeToComponent :: "string \<Rightarrow> wsManager \<Rightarrow> subscription \<times> wsManager" where
  "subscribeToComponent cid s =
     (if \<not> isConnected s \<or> \<not> isIdentified s then (Refused, s)
      else
        (case readSlot (map_of (watched s)) cid of
           Own r \<Rightarrow> (Cached r, s)
         | Inherited b \<Rightarrow> (CachedBuiltin b, s)
         | Missing \<Rightarrow>
             (let n = nextClosure s;
                  delay = (case config s of
                             None \<Rightarrow> 10000
                           | Some cfg \<Rightarrow> orDefault (commandTimeout cfg) 10000);
                  s1 = setTimeout (SubscribeTimer n) delay (s\<lparr>nextClosure := Suc n\<rparr>)
              in case socket s1 of
                   None \<Rightarrow> (Subscribing n, settle n (Rejected TypeError) s1)
                 | Some sock \<Rightarrow>
                     (let sock1 = onEvent ''component:state'' (OnState n cid) sock
                      in case config s1 of
                           None \<Rightarrow>
                             (Subscribing n,
                              settle n (Rejected TypeError) (s1\<lparr>socket := Some sock1\<rparr>))
                         | Some cfg \<Rightarrow>
                             (Subscribing n,
                              s1\<lparr>socket := Some
                                   (emitOn (ComponentSubscribe (controllerId cfg) cid)
                                      sock1)\<rparr>)))))"

text \<open>
  The closure \<^verbatim>\<open>onState\<close> of the subscription \<open>n\<close> to \<open>cid\<close>, called at time \<open>now\<close>
  with the event \<open>data\<close>: on a matching event the timer is cleared, the listener is
  taken off \<^verbatim>\<open>this.socket\<close>, the record is stored under the component id and the
  promise is resolved with \<^verbatim>\<open>data.component || data\<close>.
\<close>

definition onState ::
  "nat \<Rightarrow> string \<Rightarrow> int \<Rightarrow> jsval \<Rightarrow> wsManager \<Rightarrow> error option \<times> wsManager" where
  "onState n cid now data s =
     (case getProp data ''componentId'' of
        Inl e \<Rightarrow> (Some e, s)
      | Inr i \<Rightarrow>
          if i = JStr cid \<or> componentField data ''id'' = Inr (JStr cid) then
            (let s1 = clearTimeout (SubscribeTimer n) s
             in case socket s1 of
                  None \<Rightarrow> (Some TypeError, s1)
                | Some sock \<Rightarrow>
                    (let v = jsOr (getPropOpt data ''component'') data
                     in (None,
                         settle n (Resolved v)
                           ((off ''component:state'' (OnState n cid) s1)
                              \<lparr>watched := writeSlot (watched s1) cid
                                 \<lparr> subscribedAt = now, watchedState = v \<rparr>\<rparr>))))
          else (None, s))"

text \<open>The timer callback of the subscription \<open>n\<close>: the promise is rejected. The
  listener stays registered.\<close>

definition onSubscribeTimeout :: "nat \<Rightarrow> wsManager \<Rightarrow> wsManager" where
  "onSubscribeTimeout n s = settle n (Rejected SubscribeTimeout) s"

section \<open>Events\<close>

text \<open>
  The listener of \<^verbatim>\<open>control:update\<close> called with the wire value \<open>data\<close>: the event is
  destructured, which throws on \<^verbatim>\<open>undefined\<close> and \<^verbatim>\<open>null\<close>. A \<^verbatim>\<open>controlId\<close> that is
  not a string is never \<^verbatim>\<open>=== 'ConnectedSources'\<close> and indexes the table by its string
  form.
\<close>

definition onControlUpdate ::
  "(jsval \<Rightarrow> error + jsval) \<Rightarrow> int \<Rightarrow> jsval \<Rightarrow> wsManager \<Rightarrow> error + wsManager" where
  "onControlUpdate parse now data s =
     bindE (getProp data ''controlId'') (\<lambda>c.
     bindE (getProp data ''control'') (\<lambda>ctl.
       case c of
         JStr k \<Rightarrow> handleControlUpdate parse now \<lparr> controlId = k, control = ctl \<rparr> s
       | _ \<Rightarrow>
           bindE (toStringJs c) (\<lambda>k.
             if k = ''ConnectedSources'' then
               Inr (notifyStateChange (s\<lparr>state := (state s)\<lparr>timestamp := now\<rparr>\<rparr>))
             else handleControlUpdate parse now \<lparr> controlId = k, control = ctl \<rparr> s)))"

text \<open>
  A listener called for the event \<open>ev\<close> with the payload \<open>data\<close> at time \<open>now\<close>. A
  listener registered with \<^verbatim>\<open>once\<close> is taken off before its function runs. The
  listeners of \<^verbatim>\<open>init\<close> for the events that are not delivered in this development
  (reconnection bookkeeping, latency, status and logging) are left out.
\<close>

definition callListener ::
  "(jsval \<Rightarrow> error + jsval) \<Rightarrow> int \<Rightarrow> string \<Rightarrow> jsval \<Rightarrow> listener \<Rightarrow> wsManager
     \<Rightarrow> error option \<times> wsManager" where
  "callListener parse now ev data l s =
     (case l of
        OnSuccess n txn \<Rightarrow> onSuccess n txn data s
      | OnError n txn \<Rightarrow> onError n txn data s
      | OnState n cid \<Rightarrow> onState n cid now data s
      | OnIdentify n \<Rightarrow> onIdentify n data (off ev l s)
      | OnControllerState n \<Rightarrow> onControllerState n now data (off ev l s)
      | OnReady n \<Rightarrow> (None, onReady n (off ev l s))
      | InitListener p \<Rightarrow>
          if ev = ''connect'' then (None, onConnect p now s)
          else if ev = ''disconnect'' then (None, onDisconnect s)
          else if ev = ''connect_error'' then (None, onConnectError p s)
          else if ev = ''digitaltwin:ready'' then onDigitalTwinReady data s
          else (None, s)
      | HandleControlUpdate \<Rightarrow>
          (case onControlUpdate parse now data s of
             Inl e \<Rightarrow> (Some e, s)
           | Inr s' \<Rightarrow> (None, s'))
      | HandleComponentState \<Rightarrow>
          (case handleComponentState parse now data s of
             Inl e \<Rightarrow> (Some e, s)
           | Inr s' \<Rightarrow> (None, s')))"

text \<open>The callback of a timer.\<close>

definition timerCallback :: "timer \<Rightarrow> wsManager \<Rightarrow> wsManager" where
  "timerCallback h s =
     (case h of
        CommandTimer n txn \<Rightarrow> onCommandTimeout n txn s
      | SubscribeTimer n \<Rightarrow> onSubscribeTimeout n s
      | IdentifyTimer n \<Rightarrow> onIdentifyTimeout n s
      | DiscoveryTimer n \<Rightarrow> onDiscoveryTimeout n s
      | ReadyTimer n \<Rightarrow> onReady n s
      | ConnectTimer p \<Rightarrow> onConnectTimeout p s)"

text \<open>
  What happens to the manager from outside: an event named \<open>ev\<close> that the socket
  emits at time \<open>now\<close> with the payload \<open>data\<close> (its own \<^verbatim>\<open>connect\<close>, \<^verbatim>\<open>disconnect\<close>
  and \<^verbatim>\<open>connect_error\<close>, or an inbound wire event), a pending timer that fires, the
  calls of the manager's clients, and the runs of the two interval loops.
\<close>

datatype event =
    Emits int string jsval
  | Fires timer
  | CallSendControl string string jsval string
  | CallSubscribe string
  | CallReconnect
  | RunsHeartbeat int
  | RunsMonitor int

text \<open>One event, up to the return of its handlers; a timer that is not pending does
  not fire.\<close>

definition handle :: "(jsval \<Rightarrow> error + jsval) \<Rightarrow> event \<Rightarrow> wsManager \<Rightarrow> wsManager" where
  "handle parse e s =
     (case e of
        Emits now ev data \<Rightarrow> deliver ev (callListener parse now ev data) s
      | Fires h \<Rightarrow> if pending h s then timerCallback h (clearTimeout h s) else s
      | CallSendControl key cid v txn \<Rightarrow> snd (sendControl key cid v txn s)
      | CallSubscribe cid \<Rightarrow> snd (subscribeToComponent cid s)
      | CallReconnect \<Rightarrow> snd (reconnect s)
      | RunsHeartbeat now \<Rightarrow> heartbeat now s
      | RunsMonitor now \<Rightarrow> snd (connectionMonitor now s))"

text \<open>One event with the microtasks that follow it, and a sequence of events.\<close>

definition step :: "(jsval \<Rightarrow> error + jsval) \<Rightarrow> wsManager \<Rightarrow> event \<Rightarrow> wsManager" where
  "step parse s e = drain (handle parse e s)"

definition run :: "(jsval \<Rightarrow> error + jsval) \<Rightarrow> wsManager \<Rightarrow> event list \<Rightarrow> wsManager" where
  "run parse s es = foldl (step parse) s es"

section \<open>Observations and examples\<close>

text \<open>The \<^verbatim>\<open>component:subscribe\<close> requests for a component among the messages emitted
  on the socket.\<close>

definition subscribeRequests :: "string \<Rightarrow> wsManager \<Rightarrow> nat" where
  "subscribeRequests cid s =
     (case socket s of
        None \<Rightarrow> 0
      | Some sock \<Rightarrow>
          length (filter (\<lambda>m. case m of ComponentSubscribe c i \<Rightarrow> i = cid | _ \<Rightarrow> False)
                         (outbox sock)))"

text \<open>The \<^verbatim>\<open>controller:subscribe\<close> requests among the messages emitted on the socket.\<close>

definition refreshRequests :: "wsManager \<Rightarrow> nat" where
  "refreshRequests s =
     (case socket s of
        None \<Rightarrow> 0
      | Some sock \<Rightarrow>
          length (filter (\<lambda>m. case m of ControllerSubscribe c \<Rightarrow> True | _ \<Rightarrow> False)
                         (outbox sock)))"

text \<open>The seven value fields of the cache.\<close>

definition cacheValues :: "cachedState \<Rightarrow> jsval list" where
  "cacheValues c = [hardwareState c, connectedSources c, screenPower c, privacyGlass c,
                    didoOutput c, lightingLevel c, volumeLevel c]"

text \<open>The value fields a handler leaves behind, when it returns.\<close>

definition valuesAfter :: "error + wsManager \<Rightarrow> jsval list option" where
  "valuesAfter r = (case r of Inr s \<Rightarrow> Some (cacheValues (state s)) | Inl e \<Rightarrow> None)"

text \<open>A configuration and an initialised manager for the examples.\<close>

definition sampleConfig :: config where
  "sampleConfig = \<lparr> controllerId = JStr ''core-1'', commandTimeout = 0,
                     identifyTimeout = 0, discoveryTimeout = 0, connectionTimeout = 0 \<rparr>"

definition readyManager :: wsManager where
  "readyManager = (init sampleConfig newManager)\<lparr>isConnected := True, isIdentified := True\<rparr>"

text \<open>Example events: a \<^verbatim>\<open>control:update\<close> and a \<^verbatim>\<open>component:state\<close> snapshot whose
  \<^verbatim>\<open>ConnectedSources\<close> payload is not JSON.\<close>

definition badUpdate :: controlUpdate where
  "badUpdate = \<lparr> controlId = ''ConnectedSources'', control = JObj [(''string'', JStr ''{bad'')] \<rparr>"

definition badSnapshot :: jsval where
  "badSnapshot = JObj [(''component'', JObj [(''controls'', JObj [
      (''HardwareState'', JObj [(''value'', JStr ''on'')]),
      (''ConnectedSources'', JObj [(''string'', JStr ''{bad'')])])])]"

text \<open>
  A \<^verbatim>\<open>control:update\<close> event that carries no \<^verbatim>\<open>control\<close> object, for a control of the
  table and for a name that is not in the table.
\<close>

definition bareUpdate :: "string \<Rightarrow> controlUpdate" where
  "bareUpdate c = \<lparr> controlId = c, control = JUndefined \<rparr>"

text \<open>
  The entries of a discovery response that the first loop of the listener stores: those
  whose component has a name with a string form other than \<^verbatim>\<open>__proto__\<close>; and the
  records of a list of entries, in order.
\<close>

definition storable :: "string \<times> jsval \<Rightarrow> bool" where
  "storable e \<longleftrightarrow> (case recordOf e of Inl err \<Rightarrow> False | Inr kr \<Rightarrow> fst kr \<noteq> ''__proto__'')"

definition records :: "(string \<times> jsval) list \<Rightarrow> (string \<times> componentRecord) list" where
  "records es = concat (map (\<lambda>e. case recordOf e of Inl err \<Rightarrow> [] | Inr kr \<Rightarrow> [kr]) es)"

text \<open>
  Example discovery responses: one that carries a mixer and a display, and a later one
  that carries the display under a new id and a lighting zone; and a manager whose
  directory holds the records of the first.
\<close>

definition firstResponse :: jsval where
  "firstResponse = JObj [(''components'', JObj [
      (''mix-1'', JObj [(''name'', JStr ''Mixer_8x8_2'')]),
      (''disp-1'', JObj [(''name'', JStr ''Generic_HDMI_Display''),
                        (''controls'', JObj [(''hdmi.enabled.button'', JNum 1)])])])]"

definition secondResponse :: jsval where
  "secondResponse = JObj [(''components'', JObj [
      (''disp-2'', JObj [(''name'', JStr ''Generic_HDMI_Display'')]),
      (''zone-1'', JObj [(''name'', JStr ''LutronLEAPZone'')])])]"

definition discoveredOnce :: wsManager where
  "discoveredOnce = snd (onControllerState 1 1000 firstResponse readyManager)"

text \<open>
  A discovery response without components: the field is missing or falsy, or it has no
  entry. The discovery \<open>n\<close> finds nothing when its timer fires or such a response
  arrives.
\<close>

definition emptyResponse :: "jsval \<Rightarrow> bool" where
  "emptyResponse d \<longleftrightarrow>
     (case getProp d ''components'' of
        Inl e \<Rightarrow> False
      | Inr c \<Rightarrow> \<not> truthy c \<or> entriesOf c = [])"

definition findsNothing :: "nat \<Rightarrow> event \<Rightarrow> bool" where
  "findsNothing n e \<longleftrightarrow>
     (case e of
        Fires h \<Rightarrow> h = DiscoveryTimer n
      | Emits now ev d \<Rightarrow> ev = ''controller:state'' \<and> emptyResponse d
      | _ \<Rightarrow> False)"

text \<open>
  The start of a connection: the manager is constructed and initialised, the socket
  connects at time \<open>t\<close>, and the server confirms the identification with \<open>idData\<close>.
\<close>

definition handshake :: "config \<Rightarrow> int \<Rightarrow> jsval \<Rightarrow> event list" where
  "handshake cfg t idData =
     [Emits t ''connect'' JUndefined, Emits t ''client:identify:success'' idData]"

text \<open>A pong is overdue at time \<open>now\<close>: a ping was sent after the last pong, and the
  last pong is older than the pong timeout.\<close>

definition pongOverdue :: "int \<Rightarrow> wsManager \<Rightarrow> bool" where
  "pongOverdue now s \<longleftrightarrow>
     lastPingSent (health s) > lastPongReceived (health s)
     \<and> now - lastPongReceived (health s) > pongTimeout (health s)"

text \<open>
  What holds along every trace without pongs when the threshold is 3: while connected
  the counter is below the threshold and counts the missed runs since the last forced
  reconnect; while disconnected every missed run so far is accounted for by a reconnect.
\<close>

definition healthInv :: "healthTrace \<Rightarrow> bool" where
  "healthInv t \<longleftrightarrow>
     maxMissedPongs (health (manager t)) = 3
     \<and> socket (manager t) \<noteq> None
     \<and> (if isConnected (manager t)
         then 0 \<le> missedPongs (health (manager t)) \<and> missedPongs (health (manager t)) < 3
              \<and> int (missedRuns t) = 3 * int (reconnectCalls t) + missedPongs (health (manager t))
         else missedRuns t = 3 * reconnectCalls t)"

text \<open>
  Example states and an example trace for the health monitor: a disconnected manager
  with an overdue pong, a connected manager that has missed two pongs, and two minutes
  and a half without any pong, followed by the new connection.
\<close>

definition overdueDisconnected :: wsManager where
  "overdueDisconnected =
     readyManager\<lparr>isConnected := False,
                  health := (health readyManager)\<lparr>lastPingSent := 25000\<rparr>\<rparr>"

definition twoMissed :: wsManager where
  "twoMissed =
     readyManager\<lparr>health := (health readyManager)\<lparr>lastPingSent := 25000, missedPongs := 2\<rparr>\<rparr>"

definition silentTrace :: "healthEvent list" where
  "silentTrace = [HeartbeatRun 25000, MonitorRun 30000, HeartbeatRun 50000, MonitorRun 60000,
                  HeartbeatRun 75000, MonitorRun 90000, HeartbeatRun 100000, MonitorRun 120000,
                  MonitorRun 150000, SocketConnects 151000]"

text \<open>
  Examples for the update handler, the subscriptions and the commands: an initialised
  manager with one state listener; two calls of \<^verbatim>\<open>subscribeToComponent\<close> for the same
  id, one after the other, with what each returns; and a command that is still pending
  when the liveness checker, at its third missed pong, forces the reconnect, and whose
  timer fires after that.
\<close>

definition listening :: wsManager where
  "listening = readyManager\<lparr>stateListeners := [7]\<rparr>"

definition subscribeTwice :: "string \<Rightarrow> wsManager \<Rightarrow> subscription \<times> subscription \<times> wsManager" where
  "subscribeTwice cid s =
     (let (r1, s1) = subscribeToComponent cid s;
          (r2, s2) = subscribeToComponent cid s1
      in (r1, r2, s2))"

definition commandSent :: "event list" where
  "commandSent = [CallSendControl ''mix-1'' ''output.1.gain'' (JNum 3) ''mcp-31000-1b9d6bcd'']"

definition reconnectedMeanwhile :: "event list" where
  "reconnectedMeanwhile =
     commandSent @ [RunsMonitor 32000, Fires (CommandTimer 1 ''mcp-31000-1b9d6bcd'')]"

section \<open>Health report: classification\<close>

text \<open>
  C10. \<^verbatim>\<open>getConnectionHealth\<close> classifies the connection from the flags and counters
  alone, in this order of priority: \<open>disconnected\<close> whenever the manager is not
  connected; otherwise \<open>degraded\<close> whenever at least 2 pongs have been missed, which is
  one below the reconnect threshold of 3 that the constructor sets; otherwise \<open>stale\<close>
  whenever the last pong is more than 60 seconds old; otherwise \<open>healthy\<close>. The call
  leaves the manager as it found it.
\<close>

theorem getConnectionHealth_classifies:
  "hrHealth (fst (getConnectionHealth now s)) =
     (if \<not> isConnected s then ''disconnected''
      else if missedPongs (health s) \<ge> 2 then ''degraded''
      else if now - lastPongReceived (health s) > 60000 then ''stale''
      else ''healthy'')
   \<and> maxMissedPongs (health newManager) = 3
   \<and> maxMissedPongs (health newManager) - 1 = 2
   \<and> snd (getConnectionHealth now s) = s"
  by (simp add: getConnectionHealth_def newManager_def Let_def)

section \<open>Backoff calculator: cap and monotonicity\<close>

lemma min_scale_mono:
  fixes b c :: real
  assumes "0 \<le> b" "m \<le> n"
  shows "min (b * 2 ^ m) c \<le> min (b * 2 ^ n) c"
proof -
  have "(2::real) ^ m \<le> 2 ^ n" using assms(2) by (simp add: power_increasing)
  then have "b * 2 ^ m \<le> b * 2 ^ n" using assms(1) by (simp add: mult_left_mono)
  then show ?thesis by (simp add: min_le_iff_disj)
qed

lemma calculateBackoff_mono:
  assumes "0 \<le> reconnectionDelayBase cfg" "0 \<le> r" "m \<le> n"
  shows "calculateBackoff cfg r m \<le> calculateBackoff cfg r n"
proof -
  have "min (real_of_int (reconnectionDelayBase cfg) * 2 ^ m) (real_of_int (reconnectionDelayMax cfg))
        \<le> min (real_of_int (reconnectionDelayBase cfg) * 2 ^ n) (real_of_int (reconnectionDelayMax cfg))"
    using assms(1,3) by (intro min_scale_mono) simp_all
  moreover have "0 \<le> 1 + r * 0.25" using assms(2) by simp
  ultimately show ?thesis
    unfolding calculateBackoff_def by (rule mult_right_mono)
qed

lemma calculateBackoff_cap:
  assumes "0 \<le> reconnectionDelayMax cfg" "0 \<le> r" "r < 1"
  shows "calculateBackoff cfg r n \<le> real_of_int (reconnectionDelayMax cfg) * 1.25"
proof -
  let ?m = "min (real_of_int (reconnectionDelayBase cfg) * 2 ^ n) (real_of_int (reconnectionDelayMax cfg))"
  let ?c = "real_of_int (reconnectionDelayMax cfg)"
  have c0: "0 \<le> ?c" using assms(1) by simp
  have j: "0 \<le> 1 + r * 0.25" "1 + r * 0.25 \<le> 1.25" using assms(2,3) by simp_all
  have "?m * (1 + r * 0.25) \<le> ?c * (1 + r * 0.25)"
    using j(1) by (intro mult_right_mono) simp_all
  also have "\<dots> \<le> ?c * 1.25"
    using c0 j(2) by (intro mult_left_mono) simp_all
  finally show ?thesis unfolding calculateBackoff_def .
qed

lemma expectedBackoff_mono:
  assumes "0 \<le> reconnectionDelayBase cfg" "m \<le> n"
  shows "expectedBackoff k cfg m \<le> expectedBackoff k cfg n"
proof -
  have "(\<Sum>i<k. calculateBackoff cfg (real i / real k) m)
        \<le> (\<Sum>i<k. calculateBackoff cfg (real i / real k) n)"
    using assms by (intro sum_mono calculateBackoff_mono) simp_all
  then show ?thesis
    unfolding expectedBackoff_def by (simp add: divide_right_mono)
qed

text \<open>
  C7. With non-negative configured delays and a random draw \<open>rnd\<close> in \<open>[0, 1)\<close>, the
  delay is \<open>min(base * 2^attempt, cap) * (1 + jitter)\<close> with the jitter \<open>rnd * 0.25\<close> in
  \<open>[0, 0.25)\<close>; it never exceeds \<open>cap * 1.25\<close>, for every attempt (those from 1 to 10
  among them); and its mean over uniformly spread draws does not decrease when the
  attempt count grows.
\<close>

theorem calculateBackoff_capped_and_monotone:
  assumes "0 \<le> reconnectionDelayBase cfg" and "0 \<le> reconnectionDelayMax cfg"
    and "0 \<le> rnd" and "rnd < 1" and "m \<le> n"
  shows "calculateBackoff cfg rnd attempt =
           min (real_of_int (reconnectionDelayBase cfg) * 2 ^ attempt)
               (real_of_int (reconnectionDelayMax cfg)) * (1 + rnd * 0.25)
         \<and> 0 \<le> rnd * 0.25 \<and> rnd * 0.25 < 0.25
         \<and> calculateBackoff cfg rnd attempt \<le> real_of_int (reconnectionDelayMax cfg) * 1.25
         \<and> expectedBackoff k cfg m \<le> expectedBackoff k cfg n"
proof -
  have "calculateBackoff cfg rnd attempt \<le> real_of_int (reconnectionDelayMax cfg) * 1.25"
    using assms(2-4) by (rule calculateBackoff_cap)
  moreover have "expectedBackoff k cfg m \<le> expectedBackoff k cfg n"
    using assms(1,5) by (rule expectedBackoff_mono)
  moreover have "0 \<le> rnd * 0.25 \<and> rnd * 0.25 < 0.25"
    using assms(3,4) by simp
  ultimately show ?thesis
    unfolding calculateBackoff_def by blast
qed

theorem calculateBackoff_witness:
  "calculateBackoff \<lparr> reconnectionDelayBase = 1000, reconnectionDelayMax = 30000 \<rparr> (1/2) 10 = 33750
   \<and> calculateBackoff \<lparr> reconnectionDelayBase = 1000, reconnectionDelayMax = 30000 \<rparr> (1/2) 10
        \<le> 30000 * 1.25
   \<and> expectedBackoff 4 \<lparr> reconnectionDelayBase = 1000, reconnectionDelayMax = 30000 \<rparr> 3
        \<le> expectedBackoff 4 \<lparr> reconnectionDelayBase = 1000, reconnectionDelayMax = 30000 \<rparr> 5"
  using calculateBackoff_capped_and_monotone
    [of "\<lparr> reconnectionDelayBase = 1000, reconnectionDelayMax = 30000 \<rparr>" "1/2" 3 5 10 4]
  by simp

section \<open>State cache: serving and refreshing\<close>

lemma notify_state: "state (notifyStateChange s) = state s"
  by (simp add: notifyStateChange_def)

text \<open>
  C5. A call of \<^verbatim>\<open>getState\<close> whose cache is at most TTL old returns the cached
  snapshot and emits nothing. A call on an initialised manager whose cache is older
  emits exactly one \<^verbatim>\<open>controller:subscribe\<close> request, waits on a 100 ms timer, and then
  returns the cache as it is; it raises no error and its only wait is that timer.
\<close>

theorem getState_serves_cache_or_refreshes_once:
  "(now - timestamp (state s) \<le> TTL (state s) \<longrightarrow>
      getState now s = Inr (Return (state s), s))
   \<and> (now - timestamp (state s) > TTL (state s) \<and> socket s = Some sock \<and> config s = Some cfg \<longrightarrow>
      (\<exists>s'. getState now s = Inr (Wait 100, s')
         \<and> socket s' = Some (sock\<lparr>outbox := outbox sock @ [ControllerSubscribe (controllerId cfg)]\<rparr>)
         \<and> refreshRequests s' = refreshRequests s + 1
         \<and> state s' = state s
         \<and> getStateResume s' = state s))"
  by (simp add: getState_def getStateResume_def refreshRequests_def emitOn_def)

theorem getState_witness:
  "getState 4000 (readyManager\<lparr>state := (state readyManager)\<lparr>timestamp := 1000\<rparr>\<rparr>)
     = Inr (Return (state readyManager\<lparr>timestamp := 1000\<rparr>),
            readyManager\<lparr>state := (state readyManager)\<lparr>timestamp := 1000\<rparr>\<rparr>)
   \<and> refreshRequests (snd (projr (getState 7000 readyManager))) = refreshRequests readyManager + 1
   \<and> fst (projr (getState 7000 readyManager)) = Wait 100"
  using getState_serves_cache_or_refreshes_once
    [of 4000 "readyManager\<lparr>state := (state readyManager)\<lparr>timestamp := 1000\<rparr>\<rparr>" "freshSocket 0" sampleConfig]
    getState_serves_cache_or_refreshes_once [of 7000 readyManager "freshSocket 0" sampleConfig]
  by (auto simp add: readyManager_def init_def newManager_def)

section \<open>State cache: malformed payloads and freshness\<close>

lemma parseSources_rejected:
  "payloadOf x = Inr p \<Longrightarrow> parse p = Inl e \<Longrightarrow> parseSources parse x = Inl e"
  by (simp add: parseSources_def bindE_def)

lemma handleControlUpdate_no_value:
  assumes "(controlId upd \<noteq> ''ConnectedSources'' \<and> readSlot controlMap (controlId upd) = Missing)
           \<or> (controlId upd = ''ConnectedSources'' \<and> parseSources parse (control upd) = Inl e)"
  shows "handleControlUpdate parse now upd s =
           Inr (notifyStateChange (s\<lparr>state := (state s)\<lparr>timestamp := now\<rparr>\<rparr>))"
  using assms by (auto simp add: handleControlUpdate_def bindE_def)

lemma handleControlUpdate_stamps:
  assumes "handleControlUpdate parse now upd s = Inr s'"
  shows "timestamp (state s') = now \<and> TTL (state s') = TTL (state s)
         \<and> notifyLog s' = notifyLog s @ map (\<lambda>l. (l, state s')) (stateListeners s)"
  using assms
  by (auto simp add: handleControlUpdate_def bindE_def notifyStateChange_def setStateField_def
      split: if_splits sum.splits option.splits slot.splits)

lemma handleComponentState_fields:
  assumes c: "componentField data ''controls'' = Inr c" "truthy c"
    and cs: "truthy (getPropOpt c ''ConnectedSources'')"
    and bad: "parseSources parse (getPropOpt c ''ConnectedSources'') = Inl e"
  shows "\<exists>s'. handleComponentState parse now data s = Inr s'
           \<and> connectedSources (state s') = connectedSources (state s)
           \<and> hardwareState (state s') = hardwareState (copyControl c ''HardwareState'' ''hardwareState'' (state s))
           \<and> screenPower (state s') = screenPower (copyControl c ''hdmi.enabled.button'' ''screenPower'' (state s))
           \<and> privacyGlass (state s') = privacyGlass (copyControl c ''pin.8.digital.out'' ''privacyGlass'' (state s))
           \<and> didoOutput (state s') = didoOutput (copyControl c ''hdmi.out.1.select.hdmi.1'' ''didoOutput'' (state s))
           \<and> lightingLevel (state s') = lightingLevel (copyControl c ''ZoneDimLevel1'' ''lightingLevel'' (state s))
           \<and> volumeLevel (state s') = volumeLevel (copyControl c ''output.1.gain'' ''volumeLevel'' (state s))"
  using assms
  by (simp add: handleComponentState_def bindE_def Let_def notify_state
      copyControl_def setStateField_def)

text \<open>
  C8, as the code has it. When the \<^verbatim>\<open>ConnectedSources\<close> payload of an inbound update is
  rejected by \<^verbatim>\<open>JSON.parse\<close>, no exception leaves the handler and \<open>connectedSources\<close>
  keeps its value. A \<^verbatim>\<open>control:update\<close> event then leaves all seven value fields as
  they were. A \<^verbatim>\<open>component:state\<close> snapshot still writes each other field whose control
  the snapshot carries, exactly as it would without the malformed payload.
\<close>

theorem malformed_sources_keep_connectedSources:
  assumes "parse p = Inl e"
  shows "(controlId upd = ''ConnectedSources'' \<and> payloadOf (control upd) = Inr p \<longrightarrow>
            (\<exists>s'. handleControlUpdate parse now upd s = Inr s'
               \<and> cacheValues (state s') = cacheValues (state s)))
       \<and> (componentField data ''controls'' = Inr c \<and> truthy c
            \<and> truthy (getPropOpt c ''ConnectedSources'')
            \<and> payloadOf (getPropOpt c ''ConnectedSources'') = Inr p \<longrightarrow>
            (\<exists>s'. handleComponentState parse now data s = Inr s'
               \<and> connectedSources (state s') = connectedSources (state s)
               \<and> hardwareState (state s') = hardwareState (copyControl c ''HardwareState'' ''hardwareState'' (state s))
               \<and> screenPower (state s') = screenPower (copyControl c ''hdmi.enabled.button'' ''screenPower'' (state s))
               \<and> privacyGlass (state s') = privacyGlass (copyControl c ''pin.8.digital.out'' ''privacyGlass'' (state s))
               \<and> didoOutput (state s') = didoOutput (copyControl c ''hdmi.out.1.select.hdmi.1'' ''didoOutput'' (state s))
               \<and> lightingLevel (state s') = lightingLevel (copyControl c ''ZoneDimLevel1'' ''lightingLevel'' (state s))
               \<and> volumeLevel (state s') = volumeLevel (copyControl c ''output.1.gain'' ''volumeLevel'' (state s))))"
proof (intro conjI impI)
  assume h: "controlId upd = ''ConnectedSources'' \<and> payloadOf (control upd) = Inr p"
  then have "parseSources parse (control upd) = Inl e"
    using assms by (simp add: parseSources_rejected)
  with h have "handleControlUpdate parse now upd s =
           Inr (notifyStateChange (s\<lparr>state := (state s)\<lparr>timestamp := now\<rparr>\<rparr>))"
    by (intro handleControlUpdate_no_value) simp
  then show "\<exists>s'. handleControlUpdate parse now upd s = Inr s'
               \<and> cacheValues (state s') = cacheValues (state s)"
    by (simp add: notify_state cacheValues_def)
next
  assume h: "componentField data ''controls'' = Inr c \<and> truthy c
            \<and> truthy (getPropOpt c ''ConnectedSources'')
            \<and> payloadOf (getPropOpt c ''ConnectedSources'') = Inr p"
  then have "parseSources parse (getPropOpt c ''ConnectedSources'') = Inl e"
    using assms by (simp add: parseSources_rejected)
  with h show "\<exists>s'. handleComponentState parse now data s = Inr s'
               \<and> connectedSources (state s') = connectedSources (state s)
               \<and> hardwareState (state s') = hardwareState (copyControl c ''HardwareState'' ''hardwareState'' (state s))
               \<and> screenPower (state s') = screenPower (copyControl c ''hdmi.enabled.button'' ''screenPower'' (state s))
               \<and> privacyGlass (state s') = privacyGlass (copyControl c ''pin.8.digital.out'' ''privacyGlass'' (state s))
               \<and> didoOutput (state s') = didoOutput (copyControl c ''hdmi.out.1.select.hdmi.1'' ''didoOutput'' (state s))
               \<and> lightingLevel (state s') = lightingLevel (copyControl c ''ZoneDimLevel1'' ''lightingLevel'' (state s))
               \<and> volumeLevel (state s') = volumeLevel (copyControl c ''output.1.gain'' ''volumeLevel'' (state s))"
    by (intro handleComponentState_fields) simp_all
qed

theorem malformed_sources_witness:
  "valuesAfter (handleControlUpdate sampleParse 1 badUpdate newManager)
     = Some (cacheValues (state newManager))
   \<and> map_option (\<lambda>vs. vs ! 1) (valuesAfter (handleComponentState sampleParse 1 badSnapshot newManager))
     = Some (connectedSources (state newManager))"
proof -
  have p: "sampleParse (JStr ''{bad'') = Inl SyntaxError"
    by (simp add: sampleParse_def)
  have pl: "payloadOf (JObj [(''string'', JStr ''{bad'')]) = Inr (JStr ''{bad'')"
    by (simp add: payloadOf_def bindE_def)
  have c: "componentField badSnapshot ''controls'' = Inr (JObj [
      (''HardwareState'', JObj [(''value'', JStr ''on'')]),
      (''ConnectedSources'', JObj [(''string'', JStr ''{bad'')])])"
    by (simp add: componentField_def badSnapshot_def bindE_def)
  show ?thesis
    using malformed_sources_keep_connectedSources [where parse = sampleParse
        and p = "JStr ''{bad''" and e = SyntaxError and upd = badUpdate and now = 1
        and s = newManager and data = badSnapshot
        and c = "JObj [(''HardwareState'', JObj [(''value'', JStr ''on'')]),
               (''ConnectedSources'', JObj [(''string'', JStr ''{bad'')])]"] p pl c
    by (auto simp add: badUpdate_def valuesAfter_def getPropOpt_def cacheValues_def)
qed

text \<open>
  The claim as the specification words it fails on a snapshot: the payload is rejected,
  and yet a value field changes.
\<close>

theorem malformed_sources_snapshot_counterexample:
  "payloadOf (JObj [(''string'', JStr ''{bad'')]) = Inr (JStr ''{bad'')
   \<and> sampleParse (JStr ''{bad'') = Inl SyntaxError
   \<and> valuesAfter (Inr newManager) = Some [JNull, JNull, JNull, JNull, JNull, JNull, JNull]
   \<and> valuesAfter (handleComponentState sampleParse 1 badSnapshot newManager)
       = Some [JStr ''on'', JNull, JNull, JNull, JNull, JNull, JNull]"
  by (simp add: valuesAfter_def handleComponentState_def badSnapshot_def componentField_def bindE_def
     getPropOpt_def copyControl_def setStateField_def parseSources_def payloadOf_def sampleParse_def
     newManager_def notifyStateChange_def cacheValues_def)

section \<open>Health monitor: forced reconnects\<close>

lemma reconnect_health: "health (snd (reconnect s)) = health s"
  by (simp add: reconnect_def disconnect_def init_def Let_def split: option.splits)

lemma reconnect_socket: "socket s \<noteq> None \<Longrightarrow> socket (snd (reconnect s)) \<noteq> None"
  by (auto simp add: reconnect_def disconnect_def init_def Let_def split: option.splits)

lemma reconnect_disconnected: "socket s \<noteq> None \<Longrightarrow> \<not> isConnected (snd (reconnect s))"
  by (auto simp add: reconnect_def disconnect_def init_def Let_def split: option.splits)

lemma monitor_counter:
  "missedPongs (health (snd (connectionMonitor now s))) =
     missedPongs (health s) + (if isConnected s \<and> pongOverdue now s then 1 else 0)"
  by (simp add: connectionMonitor_def pongOverdue_def Let_def reconnect_health)

lemma monitor_calls:
  "fst (connectionMonitor now s) \<longleftrightarrow>
     isConnected s \<and> pongOverdue now s \<and> missedPongs (health s) + 1 \<ge> maxMissedPongs (health s)"
  by (auto simp add: connectionMonitor_def pongOverdue_def Let_def)

lemma monitor_max:
  "maxMissedPongs (health (snd (connectionMonitor now s))) = maxMissedPongs (health s)"
  by (simp add: connectionMonitor_def Let_def reconnect_health)

lemma monitor_socket:
  "socket s \<noteq> None \<Longrightarrow> socket (snd (connectionMonitor now s)) \<noteq> None"
  by (auto simp add: connectionMonitor_def Let_def intro!: reconnect_socket [simplified])

lemma monitor_connected:
  "socket s \<noteq> None \<Longrightarrow>
   isConnected (snd (connectionMonitor now s)) \<longleftrightarrow>
     isConnected s \<and> \<not> fst (connectionMonitor now s)"
  by (simp add: connectionMonitor_def Let_def reconnect_disconnected)

lemma healthInv_monitor:
  assumes "healthInv t"
  shows "healthInv (healthStep t (MonitorRun now))"
proof -
  let ?s = "manager t"
  obtain called s' where c: "connectionMonitor now ?s = (called, s')"
    by (cases "connectionMonitor now ?s")
  have f: "called = fst (connectionMonitor now ?s)" "s' = snd (connectionMonitor now ?s)"
    using c by simp_all
  have sock: "socket ?s \<noteq> None" using assms by (simp add: healthInv_def)
  have step: "healthStep t (MonitorRun now) =
      \<lparr> manager = s',
        missedRuns = missedRuns t + (if missedPongs (health s') \<noteq> missedPongs (health ?s) then 1 else 0),
        reconnectCalls = reconnectCalls t + (if called then 1 else 0) \<rparr>"
    using c by (simp add: healthStep_def)
  have m: "missedPongs (health s') =
             missedPongs (health ?s) + (if isConnected ?s \<and> pongOverdue now ?s then 1 else 0)"
    unfolding f by (rule monitor_counter)
  have k: "called \<longleftrightarrow> isConnected ?s \<and> pongOverdue now ?s
              \<and> missedPongs (health ?s) + 1 \<ge> maxMissedPongs (health ?s)"
    unfolding f by (rule monitor_calls)
  have mx: "maxMissedPongs (health s') = maxMissedPongs (health ?s)"
    unfolding f by (rule monitor_max)
  have so: "socket s' \<noteq> None"
    unfolding f using sock by (rule monitor_socket)
  have co: "isConnected s' \<longleftrightarrow> isConnected ?s \<and> \<not> called"
    unfolding f using sock by (rule monitor_connected)
  show ?thesis
    unfolding step using assms m k mx so co
    by (auto simp add: healthInv_def split: if_splits)
qed

lemma healthInv_heartbeat:
  assumes "healthInv t"
  shows "healthInv (healthStep t (HeartbeatRun now))"
  using assms
  by (auto simp add: healthInv_def healthStep_def heartbeat_def split: option.splits if_splits)

lemma healthInv_connect:
  assumes "healthInv t" "\<not> isConnected (manager t)"
  shows "healthInv (healthStep t (SocketConnects now))"
  using assms
  by (simp add: healthInv_def healthStep_def connectReset_def)

lemma manager_step:
  "manager (healthStep t (MonitorRun now)) = snd (connectionMonitor now (manager t))"
  "manager (healthStep t (HeartbeatRun now)) = heartbeat now (manager t)"
  "manager (healthStep t (SocketConnects now)) = connectReset now (manager t)"
  by (simp_all add: healthStep_def split: prod.splits)

lemma healthInv_run:
  assumes "healthInv t" "noPongs (manager t) evs"
  shows "healthInv (foldl healthStep t evs)"
  using assms
proof (induction evs arbitrary: t)
  case Nil
  then show ?case by simp
next
  case (Cons ev evs)
  show ?case
  proof (cases ev)
    case (MonitorRun now)
    with Cons.prems have "healthInv (healthStep t ev)" "noPongs (manager (healthStep t ev)) evs"
      by (simp_all add: healthInv_monitor manager_step)
    then show ?thesis using Cons.IH by simp
  next
    case (HeartbeatRun now)
    with Cons.prems have "healthInv (healthStep t ev)" "noPongs (manager (healthStep t ev)) evs"
      by (simp_all add: healthInv_heartbeat manager_step)
    then show ?thesis using Cons.IH by simp
  next
    case (PongArrives now)
    with Cons.prems show ?thesis by simp
  next
    case (SocketConnects now)
    with Cons.prems have "healthInv (healthStep t ev)" "noPongs (manager (healthStep t ev)) evs"
      by (simp_all add: healthInv_connect manager_step)
    then show ?thesis using Cons.IH by simp
  qed
qed

lemma healthInv_div:
  assumes "healthInv t"
  shows "reconnectCalls t = missedRuns t div 3"
proof (cases "isConnected (manager t)")
  case True
  with assms have "0 \<le> missedPongs (health (manager t))" "missedPongs (health (manager t)) < 3"
    "int (missedRuns t) = 3 * int (reconnectCalls t) + missedPongs (health (manager t))"
    by (simp_all add: healthInv_def)
  then show ?thesis by linarith
next
  case False
  with assms have "missedRuns t = 3 * reconnectCalls t" by (simp add: healthInv_def)
  then show ?thesis by simp
qed

text \<open>
  C2, as the code has it. A run of the liveness checker increments the missed-pong
  counter exactly when the manager is connected, a ping was sent more recently than the
  last pong, and the last pong is older than the pong timeout; a run while disconnected
  does nothing. The run calls \<^verbatim>\<open>reconnect\<close> exactly when that increment brings the
  counter to the threshold; the call leaves the manager disconnected, with the counter
  as it is, and the counter returns to 0 in the connect handler of the new connection.
  So with threshold 3 and no pong ever arriving, the number of reconnect calls is the
  number of missed runs divided by 3.
\<close>

theorem monitor_reconnects_once_per_three_misses:
  assumes "socket s \<noteq> None"
  shows "missedPongs (health (snd (connectionMonitor now s))) =
           missedPongs (health s) +
             (if isConnected s \<and> lastPingSent (health s) > lastPongReceived (health s)
                 \<and> now - lastPongReceived (health s) > pongTimeout (health s)
              then 1 else 0)
       \<and> (fst (connectionMonitor now s) \<longleftrightarrow>
            missedPongs (health (snd (connectionMonitor now s))) \<noteq> missedPongs (health s)
            \<and> missedPongs (health (snd (connectionMonitor now s))) \<ge> maxMissedPongs (health s))
       \<and> (fst (connectionMonitor now s) \<longrightarrow> \<not> isConnected (snd (connectionMonitor now s)))
       \<and> (\<not> isConnected s \<longrightarrow> connectionMonitor later s = (False, s))
       \<and> missedPongs (health (connectReset later s)) = 0
       \<and> (maxMissedPongs (health s) = 3 \<and> missedPongs (health s) = 0 \<and> noPongs s evs \<longrightarrow>
            reconnectCalls (healthRun s evs) = missedRuns (healthRun s evs) div 3)"
proof (intro conjI impI)
  show "missedPongs (health (snd (connectionMonitor now s))) =
           missedPongs (health s) +
             (if isConnected s \<and> lastPingSent (health s) > lastPongReceived (health s)
                 \<and> now - lastPongReceived (health s) > pongTimeout (health s)
              then 1 else 0)"
    using monitor_counter [of now s] by (simp add: pongOverdue_def)
  show "fst (connectionMonitor now s) \<longleftrightarrow>
            missedPongs (health (snd (connectionMonitor now s))) \<noteq> missedPongs (health s)
            \<and> missedPongs (health (snd (connectionMonitor now s))) \<ge> maxMissedPongs (health s)"
    using monitor_counter [of now s] monitor_calls [of now s] by auto
  show "\<not> isConnected (snd (connectionMonitor now s))" if "fst (connectionMonitor now s)"
    using that monitor_connected [OF assms, of now] by simp
  show "connectionMonitor later s = (False, s)" if "\<not> isConnected s"
    using that by (simp add: connectionMonitor_def)
  show "missedPongs (health (connectReset later s)) = 0"
    by (simp add: connectReset_def)
  show "reconnectCalls (healthRun s evs) = missedRuns (healthRun s evs) div 3"
    if h: "maxMissedPongs (health s) = 3 \<and> missedPongs (health s) = 0 \<and> noPongs s evs"
  proof -
    let ?t = "\<lparr> manager = s, missedRuns = 0, reconnectCalls = 0 \<rparr>"
    have "healthInv ?t" using h assms by (simp add: healthInv_def)
    moreover have "noPongs (manager ?t) evs" using h by simp
    ultimately have "healthInv (foldl healthStep ?t evs)" by (rule healthInv_run)
    then show ?thesis unfolding healthRun_def by (rule healthInv_div)
  qed
qed

theorem monitor_reconnects_witness:
  "socket readyManager \<noteq> None
   \<and> noPongs readyManager silentTrace
   \<and> missedRuns (healthRun readyManager silentTrace) = 3
   \<and> reconnectCalls (healthRun readyManager silentTrace) = 1"
proof -
  have a: "socket readyManager \<noteq> None" "maxMissedPongs (health readyManager) = 3"
    "missedPongs (health readyManager) = 0"
    by (simp_all add: readyManager_def init_def newManager_def)
  have b: "noPongs readyManager silentTrace"
    by (simp add: silentTrace_def readyManager_def init_def newManager_def heartbeat_def
        connectionMonitor_def reconnect_def disconnect_def emitOn_def Let_def)
  have c: "missedRuns (healthRun readyManager silentTrace) = 3"
    by (simp add: healthRun_def healthStep_def silentTrace_def readyManager_def init_def
        newManager_def heartbeat_def connectionMonitor_def reconnect_def disconnect_def
        connectReset_def emitOn_def Let_def)
  from monitor_reconnects_once_per_three_misses [OF a(1), of 0 0 silentTrace] a b c
  show ?thesis by simp
qed

text \<open>
  The claim as the specification words it fails twice: a run on a disconnected manager
  leaves the counter alone although the pong is overdue, and the run that calls
  \<^verbatim>\<open>reconnect\<close> leaves the counter at the threshold.
\<close>

theorem monitor_counterexample:
  "lastPingSent (health overdueDisconnected) > lastPongReceived (health overdueDisconnected)
   \<and> 60000 - lastPongReceived (health overdueDisconnected) > pongTimeout (health overdueDisconnected)
   \<and> missedPongs (health (snd (connectionMonitor 60000 overdueDisconnected)))
       = missedPongs (health overdueDisconnected)
   \<and> fst (connectionMonitor 60000 twoMissed)
   \<and> missedPongs (health (snd (connectionMonitor 60000 twoMissed))) = 3"
  by (simp add: overdueDisconnected_def twoMissed_def readyManager_def init_def newManager_def
      connectionMonitor_def reconnect_def disconnect_def Let_def)

section \<open>Discovery: the directory after a response\<close>

lemma map_of_upsert: "map_of (upsert k v xs) = (map_of xs)(k \<mapsto> v)"
  by (induction xs) auto

lemma records_Cons:
  "recordOf e = Inr kr \<Longrightarrow> records (e # es) = kr # records es"
  by (simp add: records_def)

lemma storeComponents_storable:
  "\<forall>e \<in> set es. storable e \<Longrightarrow>
     fst (storeComponents dir es) = None
     \<and> map_of (snd (storeComponents dir es)) = map_of dir ++ map_of (rev (records es))"
proof (induction es arbitrary: dir)
  case Nil
  then show ?case by (simp add: records_def)
next
  case (Cons e es)
  from Cons.prems obtain k r where kr: "recordOf e = Inr (k, r)" "k \<noteq> ''__proto__''"
    by (auto simp add: storable_def split: sum.splits)
  have rest: "\<forall>e \<in> set es. storable e"
    using Cons.prems by simp
  have step: "storeComponents dir (e # es) = storeComponents (upsert k r dir) es"
    using kr by (simp add: writeSlot_def)
  have "map_of (upsert k r dir) ++ map_of (rev (records es))
          = map_of dir ++ map_of (rev (records (e # es)))"
  proof -
    have "map_of dir ++ map_of (rev (records (e # es)))
            = map_of dir ++ (map_of [(k, r)] ++ map_of (rev (records es)))"
      using kr by (simp add: records_Cons)
    also have "\<dots> = (map_of dir ++ map_of [(k, r)]) ++ map_of (rev (records es))"
      by (simp only: map_add_assoc)
    also have "map_of dir ++ map_of [(k, r)] = map_of (upsert k r dir)"
      by (simp add: map_of_upsert)
    finally show ?thesis by simp
  qed
  with Cons.IH [OF rest, of "upsert k r dir"] step show ?case
    by simp
qed

lemma settle_directory: "discoveredList (settle n r s) = discoveredList s"
  by (simp add: settle_def)

lemma subscribeKnown_directory: "discoveredList (snd (subscribeKnown s)) = discoveredList s"
  by (simp add: subscribeKnown_def Let_def split: option.splits)

lemma onControllerState_directory:
  assumes "getProp data ''components'' = Inr comps"
  shows "discoveredList (snd (onControllerState n now data s)) =
           (if truthy comps then snd (storeComponents (discoveredList s) (entriesOf comps))
            else discoveredList s)"
  using assms
  by (simp add: onControllerState_def Let_def case_prod_beta settle_directory
      subscribeKnown_directory clearTimeout_def split: option.splits)

text \<open>
  C3, as the code has it. The listener of a discovery merges the response into the
  directory. When the response carries components whose names can be stored, the
  directory afterwards is the old one overridden, name by name, by the records of the
  response, and every record that an earlier discovery stored under another name is
  still there. A response without components, and a discovery that times out, leave the
  directory as it is.
\<close>

theorem discovery_merges_into_directory:
  assumes "getProp data ''components'' = Inr comps"
    and "\<forall>e \<in> set (entriesOf comps). storable e"
  shows "(truthy comps \<longrightarrow>
            map_of (discoveredList (snd (onControllerState n now data s)))
              = map_of (discoveredList s) ++ map_of (rev (records (entriesOf comps)))
            \<and> (\<forall>k. k \<notin> fst ` set (records (entriesOf comps)) \<longrightarrow>
                  map_of (discoveredList (snd (onControllerState n now data s))) k
                    = map_of (discoveredList s) k))
         \<and> (\<not> truthy comps \<longrightarrow>
              discoveredList (snd (onControllerState n now data s)) = discoveredList s)
         \<and> discoveredList (onDiscoveryTimeout n s) = discoveredList s"
proof (intro conjI impI)
  assume t: "truthy comps"
  let ?d = "map_of (discoveredList (snd (onControllerState n now data s)))"
  show d: "?d = map_of (discoveredList s) ++ map_of (rev (records (entriesOf comps)))"
    using onControllerState_directory [OF assms(1), of n now s] t
      storeComponents_storable [OF assms(2), of "discoveredList s"]
    by simp
  show "\<forall>k. k \<notin> fst ` set (records (entriesOf comps)) \<longrightarrow> ?d k = map_of (discoveredList s) k"
  proof (intro allI impI)
    fix k assume "k \<notin> fst ` set (records (entriesOf comps))"
    then have "map_of (rev (records (entriesOf comps))) k = None"
      by (simp add: map_of_eq_None_iff)
    then show "?d k = map_of (discoveredList s) k"
      by (simp add: d map_add_def)
  qed
next
  assume "\<not> truthy comps"
  then show "discoveredList (snd (onControllerState n now data s)) = discoveredList s"
    using onControllerState_directory [OF assms(1), of n now s] by simp
next
  show "discoveredList (onDiscoveryTimeout n s) = discoveredList s"
    by (simp add: onDiscoveryTimeout_def settle_directory)
qed

theorem discovery_merges_witness:
  "getProp secondResponse ''components''
     = Inr (JObj [(''disp-2'', JObj [(''name'', JStr ''Generic_HDMI_Display'')]),
                  (''zone-1'', JObj [(''name'', JStr ''LutronLEAPZone'')])])
   \<and> list_all storable [(''disp-2'', JObj [(''name'', JStr ''Generic_HDMI_Display'')]),
                          (''zone-1'', JObj [(''name'', JStr ''LutronLEAPZone'')])]
   \<and> map fst (discoveredList discoveredOnce) = [''Mixer_8x8_2'', ''Generic_HDMI_Display'']
   \<and> map_of (discoveredList (snd (onControllerState 9 2000 secondResponse discoveredOnce)))
       = map_of (discoveredList discoveredOnce)
           ++ map_of [(''LutronLEAPZone'',
                        \<lparr> compId = ''zone-1'', compName = JStr ''LutronLEAPZone'',
                          compControls = JObj [] \<rparr>),
                      (''Generic_HDMI_Display'',
                        \<lparr> compId = ''disp-2'', compName = JStr ''Generic_HDMI_Display'',
                          compControls = JObj [] \<rparr>)]
   \<and> map_of (discoveredList (snd (onControllerState 9 2000 secondResponse discoveredOnce)))
         ''Mixer_8x8_2''
       = map_of (discoveredList discoveredOnce) ''Mixer_8x8_2''"
proof -
  have c: "getProp secondResponse ''components''
     = Inr (JObj [(''disp-2'', JObj [(''name'', JStr ''Generic_HDMI_Display'')]),
                  (''zone-1'', JObj [(''name'', JStr ''LutronLEAPZone'')])])"
    by (simp add: secondResponse_def)
  have st: "\<forall>e \<in> set (entriesOf (JObj [(''disp-2'', JObj [(''name'', JStr ''Generic_HDMI_Display'')]),
                  (''zone-1'', JObj [(''name'', JStr ''LutronLEAPZone'')])])). storable e"
    by (simp add: storable_def recordOf_def bindE_def)
  have r: "records (entriesOf (JObj [(''disp-2'', JObj [(''name'', JStr ''Generic_HDMI_Display'')]),
                  (''zone-1'', JObj [(''name'', JStr ''LutronLEAPZone'')])]))
      = [(''Generic_HDMI_Display'',
                        \<lparr> compId = ''disp-2'', compName = JStr ''Generic_HDMI_Display'',
                          compControls = JObj [] \<rparr>),
         (''LutronLEAPZone'',
                        \<lparr> compId = ''zone-1'', compName = JStr ''LutronLEAPZone'',
                          compControls = JObj [] \<rparr>)]"
    by (simp add: records_def recordOf_def bindE_def getPropOpt_def controlsOrEmpty_def jsOr_def)
  have names: "map fst (discoveredList discoveredOnce) = [''Mixer_8x8_2'', ''Generic_HDMI_Display'']"
    by code_simp
  show ?thesis
    using discovery_merges_into_directory [OF c st, of 9 2000 discoveredOnce] c r names
    by (simp add: storable_def recordOf_def bindE_def)
qed

text \<open>
  The directory is not replaced: the second response carries the display and a lighting
  zone, not the mixer, and the mixer's record of the first discovery is still in the
  directory after it.
\<close>

theorem discovery_keeps_old_records_counterexample:
  "map fst (records (entriesOf (JObj [(''disp-2'', JObj [(''name'', JStr ''Generic_HDMI_Display'')]),
                  (''zone-1'', JObj [(''name'', JStr ''LutronLEAPZone'')])])))
     = [''Generic_HDMI_Display'', ''LutronLEAPZone'']
   \<and> discoveredList (snd (onControllerState 9 2000 secondResponse discoveredOnce))
     = [(''Mixer_8x8_2'',
          \<lparr> compId = ''mix-1'', compName = JStr ''Mixer_8x8_2'', compControls = JObj [] \<rparr>),
        (''Generic_HDMI_Display'',
          \<lparr> compId = ''disp-2'', compName = JStr ''Generic_HDMI_Display'',
            compControls = JObj [] \<rparr>),
        (''LutronLEAPZone'',
          \<lparr> compId = ''zone-1'', compName = JStr ''LutronLEAPZone'', compControls = JObj [] \<rparr>)]"
  by code_simp

section \<open>Connecting without components\<close>

declare drain.simps [simp del]

lemmas model_eval =
  run_def step_def handle_def deliver_def listenersFor_def listenersOn_def callListener_def
  onConnect_def connectReset_def identify_def onIdentify_def onIdentifyTimeout_def
  discoverComponents_def onDiscoveryTimeout_def discoveryResult_def
  waitForReady_def onReady_def
  onDigitalTwinReady_def resume_def await_def settle_def outcomeOf_def
  setTimeout_def clearTimeout_def pending_def off_def onEvent_def emitOn_def
  timerCallback_def init_def freshSocket_def newManager_def handshake_def
  connectionField_def Let_def drain.simps

lemma getProp_defined:
  "v \<noteq> JUndefined \<Longrightarrow> v \<noteq> JNull \<Longrightarrow> getProp v k = Inr (getPropOpt v k)"
  by (cases v) (simp_all add: getPropOpt_def)

lemma foundNothing_result: "foundNothing (discoveryResult ok 0)"
  by (simp add: foundNothing_def discoveryResult_def getPropOpt_def)

lemma findEntry_empty: "findEntry names [] = Inr None"
  by simp

lemma resolveRoles_empty: "resolveRoles [] roles pats = (None, roles)"
  by (induction pats) simp_all

lemma onControllerState_empty:
  assumes "emptyResponse d" and "knownIds (components s) = []"
  shows "onControllerState n now d s =
           (None, settle n (Resolved (discoveryResult (truthy (getPropOpt d ''components'')) 0))
                    ((clearTimeout (DiscoveryTimer n) s)
                       \<lparr>controllerStatus :=
                          (if truthy (getPropOpt d ''components'')
                           then \<lparr> statusConnected = (getPropOpt d ''connected'' \<noteq> JBool False),
                                  statusHealth = (if getPropOpt d ''connected'' \<noteq> JBool False
                                                  then ''healthy'' else ''disconnected''),
                                  lastUpdate = now \<rparr>
                           else controllerStatus s)\<rparr>))"
  using assms
  by (auto simp add: emptyResponse_def onControllerState_def Let_def getPropOpt_def
      resolveRoles_empty subscribeKnown_def clearTimeout_def split: sum.splits)


lemma knownIds_new: "knownIds (components newManager) = []"
  by (simp add: knownIds_def newManager_def)

lemma run_append: "run parse s (es @ fs) = run parse (run parse s es) fs"
  by (simp add: run_def)

lemma run_Cons: "run parse s (e # es) = run parse (step parse s e) es"
  by (simp add: run_def)

lemma run_Nil: "run parse s [] = s"
  by (simp add: run_def)

text \<open>The manager when the connect handler has identified and waits for its first
  discovery.\<close>

lemma handshake_state:
  fixes parse cfg t idData
  assumes "idData \<noteq> JUndefined" and "idData \<noteq> JNull"
  defines "s \<equiv> run parse (init cfg newManager) (handshake cfg t idData)"
  shows "socket s = Some \<lparr> handlers = handlers (freshSocket 0) @ [(''controller:state'', OnControllerState 2)],
                            outbox = [ClientIdentify, ControllerSubscribe (controllerId cfg)] \<rparr>"
    and "timers s = [(DiscoveryTimer 2, orDefault (discoveryTimeout cfg) 10000)]"
    and "tasks s = [\<lparr> awaits = 2, stage = AfterDiscovery, settles = 0 \<rparr>]"
    and "runnable s = []"
    and "settled s = [(1, Resolved idData)]"
    and "config s = Some cfg"
    and "components s = components newManager"
    and "discoveredList s = []"
    and "isConnected s" and "isIdentified s"
    and "nextClosure s = 3"
    and "uncaught s = []"
  using assms(1,2) unfolding s_def
  by (simp_all add: model_eval getProp_defined)

lemma first_discovery:
  fixes parse cfg t idData e
  assumes "idData \<noteq> JUndefined" and "idData \<noteq> JNull" and "findsNothing 2 e"
  defines "w \<equiv> run parse (init cfg newManager) (handshake cfg t idData @ [e])"
  shows "\<exists>hs. (hs = [] \<or> hs = [(''controller:state'', OnControllerState 2)])
           \<and> socket w = Some \<lparr> handlers = handlers (freshSocket 0) @ hs @ [(''digitaltwin:ready'', OnReady 3)],
                            outbox = [ClientIdentify, ControllerSubscribe (controllerId cfg)] \<rparr>"
    and "timers w = [(ReadyTimer 3, 30000)]"
    and "tasks w = [\<lparr> awaits = 3, stage = AfterReady, settles = 0 \<rparr>]"
    and "runnable w = []"
    and "fst ` set (settled w) = {1, 2}"
    and "config w = Some cfg"
    and "components w = components newManager"
    and "discoveredList w = []"
    and "isConnected w" and "isIdentified w"
    and "nextClosure w = 4"
    and "uncaught w = []"
proof -
  define s where "s = run parse (init cfg newManager) (handshake cfg t idData)"
  note s = handshake_state [OF assms(1,2), of parse cfg t, folded s_def]
  have w: "w = step parse s e"
    by (simp add: w_def s_def run_append run_Cons run_Nil)
  consider (timer) "e = Fires (DiscoveryTimer 2)"
    | (response) now d where "e = Emits now ''controller:state'' d" "emptyResponse d"
    using assms(3) by (auto simp add: findsNothing_def split: event.splits)
  then have "(\<exists>hs. (hs = [] \<or> hs = [(''controller:state'', OnControllerState 2)])
           \<and> socket w = Some \<lparr> handlers = handlers (freshSocket 0) @ hs @ [(''digitaltwin:ready'', OnReady 3)],
                            outbox = [ClientIdentify, ControllerSubscribe (controllerId cfg)] \<rparr>)
    \<and> timers w = [(ReadyTimer 3, 30000)]
    \<and> tasks w = [\<lparr> awaits = 3, stage = AfterReady, settles = 0 \<rparr>]
    \<and> runnable w = []
    \<and> fst ` set (settled w) = {1, 2}
    \<and> config w = Some cfg
    \<and> components w = components newManager
    \<and> discoveredList w = []
    \<and> isConnected w \<and> isIdentified w
    \<and> nextClosure w = 4
    \<and> uncaught w = []"
  proof cases
    case timer
    have "w = s\<lparr>timers := [(ReadyTimer 3, 30000)],
               tasks := [\<lparr> awaits = 3, stage = AfterReady, settles = 0 \<rparr>],
               settled := [(1, Resolved idData), (2, Resolved (discoveryResult False 0))],
               socket := Some \<lparr> handlers = handlers (freshSocket 0)
                                    @ [(''controller:state'', OnControllerState 2)]
                                    @ [(''digitaltwin:ready'', OnReady 3)],
                            outbox = [ClientIdentify, ControllerSubscribe (controllerId cfg)] \<rparr>,
               nextClosure := 4\<rparr>"
      unfolding w timer
      by (simp add: step_def handle_def pending_def timerCallback_def onDiscoveryTimeout_def
          clearTimeout_def settle_def s drain.simps resume_def foundNothing_result
          waitForReady_def Let_def await_def outcomeOf_def setTimeout_def onEvent_def)
    then show ?thesis
      by (simp add: s)
  next
    case response
    have "w = s\<lparr>timers := [(ReadyTimer 3, 30000)],
               tasks := [\<lparr> awaits = 3, stage = AfterReady, settles = 0 \<rparr>],
               settled := [(1, Resolved idData),
                           (2, Resolved (discoveryResult (truthy (getPropOpt d ''components'')) 0))],
               socket := Some \<lparr> handlers = handlers (freshSocket 0)
                                    @ [(''digitaltwin:ready'', OnReady 3)],
                            outbox = [ClientIdentify, ControllerSubscribe (controllerId cfg)] \<rparr>,
               controllerStatus :=
                          (if truthy (getPropOpt d ''components'')
                           then \<lparr> statusConnected = (getPropOpt d ''connected'' \<noteq> JBool False),
                                  statusHealth = (if getPropOpt d ''connected'' \<noteq> JBool False
                                                  then ''healthy'' else ''disconnected''),
                                  lastUpdate = now \<rparr>
                           else controllerStatus s),
               nextClosure := 4\<rparr>"
      unfolding w response
      using response(2)
      by (simp add: step_def handle_def deliver_def listenersFor_def listenersOn_def
          callListener_def off_def onControllerState_empty knownIds_new freshSocket_def
          clearTimeout_def settle_def s drain.simps resume_def foundNothing_result
          waitForReady_def Let_def await_def outcomeOf_def setTimeout_def onEvent_def)
    then show ?thesis
      by (simp add: s)
  qed
  then show "\<exists>hs. (hs = [] \<or> hs = [(''controller:state'', OnControllerState 2)])
           \<and> socket w = Some \<lparr> handlers = handlers (freshSocket 0) @ hs @ [(''digitaltwin:ready'', OnReady 3)],
                            outbox = [ClientIdentify, ControllerSubscribe (controllerId cfg)] \<rparr>"
    and "timers w = [(ReadyTimer 3, 30000)]"
    and "tasks w = [\<lparr> awaits = 3, stage = AfterReady, settles = 0 \<rparr>]"
    and "runnable w = []"
    and "fst ` set (settled w) = {1, 2}"
    and "config w = Some cfg"
    and "components w = components newManager"
    and "discoveredList w = []"
    and "isConnected w" and "isIdentified w"
    and "nextClosure w = 4"
    and "uncaught w = []"
    by blast+
qed


lemma map_of_absent: "k \<notin> fst ` set xs \<Longrightarrow> map_of xs k = None"
  by (simp add: map_of_eq_None_iff)

lemmas step_eval =
  step_def handle_def deliver_def listenersFor_def listenersOn_def callListener_def off_def
  pending_def timerCallback_def onDiscoveryTimeout_def onReady_def onDigitalTwinReady_def
  discoverComponents_def waitForReady_def freshSocket_def clearTimeout_def settle_def
  drain.simps resume_def await_def outcomeOf_def setTimeout_def onEvent_def emitOn_def
  Let_def map_of_absent map_add_def

lemma wait_times_out:
  assumes "socket w = Some \<lparr> handlers = handlers (freshSocket 0) @ hs
                                    @ [(''digitaltwin:ready'', OnReady 3)], outbox = ob \<rparr>"
    and "timers w = [(ReadyTimer 3, 30000)]"
    and "tasks w = [\<lparr> awaits = 3, stage = AfterReady, settles = 0 \<rparr>]"
    and "runnable w = []"
    and "fst ` set (settled w) = {1, 2}"
    and "config w = Some cfg"
    and "nextClosure w = 4"
  shows "step parse w (Fires (ReadyTimer 3)) =
           w\<lparr>timers := [(DiscoveryTimer 4, orDefault (discoveryTimeout cfg) 10000)],
             tasks := [\<lparr> awaits = 4, stage = AfterRetry, settles = 0 \<rparr>],
             settled := settled w @ [(3, Resolved JUndefined)],
             socket := Some \<lparr> handlers = handlers (freshSocket 0) @ hs
                                    @ [(''digitaltwin:ready'', OnReady 3),
                                       (''controller:state'', OnControllerState 4)],
                               outbox = ob @ [ControllerSubscribe (controllerId cfg)] \<rparr>,
             nextClosure := 5\<rparr>"
  using assms by (simp add: step_eval)

lemma second_discovery:
  assumes "socket r = Some \<lparr> handlers = handlers (freshSocket 0) @ hs
                                    @ [(''digitaltwin:ready'', OnReady 3),
                                       (''controller:state'', OnControllerState 4)],
                               outbox = ob \<rparr>"
    and "hs = [] \<or> hs = [(''controller:state'', OnControllerState 2)]"
    and "timers r = [(DiscoveryTimer 4, delay)]"
    and "tasks r = [\<lparr> awaits = 4, stage = AfterRetry, settles = 0 \<rparr>]"
    and "runnable r = []"
    and "fst ` set (settled r) = {1, 2, 3}"
    and "components r = components newManager"
    and "discoveredList r = []"
    and "findsNothing 4 e"
  shows "outcomeOf 0 (step parse r e) = Some (Resolved JUndefined)"
    and "resolutions 0 (step parse r e) = 1"
    and "map_option outbox (socket (step parse r e)) = Some ob"
    and "discoveredList (step parse r e) = []"
    and "components (step parse r e) = components newManager"
    and "isConnected (step parse r e) = isConnected r"
    and "isIdentified (step parse r e) = isIdentified r"
    and "uncaught (step parse r e) = uncaught r"
    and "tasks (step parse r e) = []"
    and "runnable (step parse r e) = []"
    and "config (step parse r e) = config r"
    and "nextClosure (step parse r e) = nextClosure r"
    and "fst ` set (settled (step parse r e)) \<subseteq> {0, 1, 2, 3, 4}"
proof -
  consider (timer) "e = Fires (DiscoveryTimer 4)"
    | (response) now d where "e = Emits now ''controller:state'' d" "emptyResponse d"
    using assms(9) by (auto simp add: findsNothing_def split: event.splits)
  then have "\<exists>x st hs'. step parse r e =
               r\<lparr>timers := [], tasks := [],
                 settled := settled r @ x @ [(0, Resolved JUndefined)],
                 socket := Some \<lparr> handlers = hs', outbox = ob \<rparr>,
                 controllerStatus := st\<rparr> \<and> fst ` set x \<subseteq> {2, 4}"
  proof cases
    case timer
    have "step parse r e =
               r\<lparr>timers := [], tasks := [],
                 settled := settled r @ [(4, Resolved (discoveryResult False 0))] @ [(0, Resolved JUndefined)],
                 socket := Some \<lparr> handlers = handlers (freshSocket 0) @ hs
                                    @ [(''digitaltwin:ready'', OnReady 3),
                                       (''controller:state'', OnControllerState 4)],
                               outbox = ob \<rparr>,
                 controllerStatus := controllerStatus r\<rparr>"
      unfolding timer using assms(1-8) by (simp add: step_eval)
    then show ?thesis
      by (intro exI [of _ "[(4, Resolved (discoveryResult False 0))]"]
          exI [of _ "controllerStatus r"]
          exI [of _ "handlers (freshSocket 0) @ hs
                                    @ [(''digitaltwin:ready'', OnReady 3),
                                       (''controller:state'', OnControllerState 4)]"] conjI)
        simp_all
  next
    case response
    from assms(2) show ?thesis
    proof
      assume hs: "hs = []"
      have "step parse r e =
               r\<lparr>timers := [], tasks := [],
                 settled := settled r @ [(4, Resolved (discoveryResult (truthy (getPropOpt d ''components'')) 0))] @ [(0, Resolved JUndefined)],
                 socket := Some \<lparr> handlers = handlers (freshSocket 0)
                                    @ [(''digitaltwin:ready'', OnReady 3)],
                               outbox = ob \<rparr>,
                 controllerStatus :=
                          (if truthy (getPropOpt d ''components'')
                           then \<lparr> statusConnected = (getPropOpt d ''connected'' \<noteq> JBool False),
                                  statusHealth = (if getPropOpt d ''connected'' \<noteq> JBool False
                                                  then ''healthy'' else ''disconnected''),
                                  lastUpdate = now \<rparr>
                           else controllerStatus r)\<rparr>"
        unfolding response using assms(1-8) response(2) hs
        by (simp add: step_eval onControllerState_empty knownIds_new)
      then show ?thesis
        by (intro exI [of _ "[(4, Resolved (discoveryResult (truthy (getPropOpt d ''components'')) 0))]"]
            exI [of _ "(if truthy (getPropOpt d ''components'')
                           then \<lparr> statusConnected = (getPropOpt d ''connected'' \<noteq> JBool False),
                                  statusHealth = (if getPropOpt d ''connected'' \<noteq> JBool False
                                                  then ''healthy'' else ''disconnected''),
                                  lastUpdate = now \<rparr>
                           else controllerStatus r)"]
            exI [of _ "handlers (freshSocket 0) @ [(''digitaltwin:ready'', OnReady 3)]"] conjI)
          simp_all
    next
      assume hs: "hs = [(''controller:state'', OnControllerState 2)]"
      have "step parse r e =
               r\<lparr>timers := [], tasks := [],
                 settled := settled r @ [(2, Resolved (discoveryResult (truthy (getPropOpt d ''components'')) 0)),
                     (4, Resolved (discoveryResult (truthy (getPropOpt d ''components'')) 0))] @ [(0, Resolved JUndefined)],
                 socket := Some \<lparr> handlers = handlers (freshSocket 0)
                                    @ [(''digitaltwin:ready'', OnReady 3)],
                               outbox = ob \<rparr>,
                 controllerStatus :=
                          (if truthy (getPropOpt d ''components'')
                           then \<lparr> statusConnected = (getPropOpt d ''connected'' \<noteq> JBool False),
                                  statusHealth = (if getPropOpt d ''connected'' \<noteq> JBool False
                                                  then ''healthy'' else ''disconnected''),
                                  lastUpdate = now \<rparr>
                           else controllerStatus r)\<rparr>"
        unfolding response using assms(1-8) response(2) hs
        by (simp add: step_eval onControllerState_empty knownIds_new)
      then show ?thesis
        by (intro exI [of _ "[(2, Resolved (discoveryResult (truthy (getPropOpt d ''components'')) 0)),
                     (4, Resolved (discoveryResult (truthy (getPropOpt d ''components'')) 0))]"]
            exI [of _ "(if truthy (getPropOpt d ''components'')
                           then \<lparr> statusConnected = (getPropOpt d ''connected'' \<noteq> JBool False),
                                  statusHealth = (if getPropOpt d ''connected'' \<noteq> JBool False
                                                  then ''healthy'' else ''disconnected''),
                                  lastUpdate = now \<rparr>
                           else controllerStatus r)"]
            exI [of _ "handlers (freshSocket 0) @ [(''digitaltwin:ready'', OnReady 3)]"] conjI)
          simp_all
    qed
  qed
  then obtain x st hs' where f: "step parse r e =
               r\<lparr>timers := [], tasks := [],
                 settled := settled r @ x @ [(0, Resolved JUndefined)],
                 socket := Some \<lparr> handlers = hs', outbox = ob \<rparr>,
                 controllerStatus := st\<rparr>" and x: "fst ` set x \<subseteq> {2, 4}"
    by blast
  have absent: "0 \<notin> fst ` set (settled r)" "0 \<notin> fst ` set x"
    using assms(6) x by auto
  have none: "map_of (settled r) 0 = None" "map_of x 0 = None"
    using absent by (simp_all add: map_of_eq_None_iff)
  have nomem: "filter (\<lambda>(m, r). m = 0) (settled r) = []" "filter (\<lambda>(m, r). m = 0) x = []"
    using absent by (force simp add: filter_empty_conv)+
  show "outcomeOf 0 (step parse r e) = Some (Resolved JUndefined)"
    using none by (simp add: f outcomeOf_def map_add_def)
  show "resolutions 0 (step parse r e) = 1"
    using nomem by (simp add: f resolutions_def)
  show "map_option outbox (socket (step parse r e)) = Some ob"
    and "discoveredList (step parse r e) = []"
    and "components (step parse r e) = components newManager"
    and "isConnected (step parse r e) = isConnected r"
    and "isIdentified (step parse r e) = isIdentified r"
    and "uncaught (step parse r e) = uncaught r"
    and "tasks (step parse r e) = []"
    and "runnable (step parse r e) = []"
    and "config (step parse r e) = config r"
    and "nextClosure (step parse r e) = nextClosure r"
    using assms by (simp_all add: f)
  show "fst ` set (settled (step parse r e)) \<subseteq> {0, 1, 2, 3, 4}"
    using assms(6) x by (auto simp add: f)
qed


lemma signal_arrives:
  assumes "socket w = Some \<lparr> handlers = handlers (freshSocket 0) @ hs
                                    @ [(''digitaltwin:ready'', OnReady 3)], outbox = ob \<rparr>"
    and "hs = [] \<or> hs = [(''controller:state'', OnControllerState 2)]"
    and "timers w = [(ReadyTimer 3, 30000)]"
    and "tasks w = [\<lparr> awaits = 3, stage = AfterReady, settles = 0 \<rparr>]"
    and "runnable w = []"
    and "fst ` set (settled w) = {1, 2}"
    and "config w = Some cfg"
    and "nextClosure w = 4"
    and "discoveredList w = []"
    and "rd \<noteq> JUndefined" and "rd \<noteq> JNull"
  shows "step parse w (Emits now ''digitaltwin:ready'' rd) =
           w\<lparr>timers := [(ReadyTimer 3, 30000),
                         (DiscoveryTimer 4, orDefault (discoveryTimeout cfg) 10000),
                         (DiscoveryTimer 5, orDefault (discoveryTimeout cfg) 10000)],
             tasks := [\<lparr> awaits = 5, stage = AfterRetry, settles = 0 \<rparr>],
             settled := settled w @ [(3, Resolved JUndefined)],
             socket := Some \<lparr> handlers = handlers (freshSocket 0) @ hs
                                    @ [(''controller:state'', OnControllerState 4),
                                       (''controller:state'', OnControllerState 5)],
                               outbox = ob @ [ControllerSubscribe (controllerId cfg),
                                              ControllerSubscribe (controllerId cfg)] \<rparr>,
             nextClosure := 6\<rparr>"
  using assms(2)
proof
  assume "hs = []"
  then show ?thesis
    using assms(1,3-11) by (simp add: step_eval getProp_defined)
next
  assume "hs = [(''controller:state'', OnControllerState 2)]"
  then show ?thesis
    using assms(1,3-11) by (simp add: step_eval getProp_defined)
qed

lemma third_discovery:
  assumes "socket r = Some \<lparr> handlers = handlers (freshSocket 0) @ hs
                                    @ [(''controller:state'', OnControllerState 4),
                                       (''controller:state'', OnControllerState 5)],
                               outbox = ob \<rparr>"
    and "hs = [] \<or> hs = [(''controller:state'', OnControllerState 2)]"
    and "timers r = [(ReadyTimer 3, 30000), (DiscoveryTimer 4, delay), (DiscoveryTimer 5, delay)]"
    and "tasks r = [\<lparr> awaits = 5, stage = AfterRetry, settles = 0 \<rparr>]"
    and "runnable r = []"
    and "fst ` set (settled r) = {1, 2, 3}"
    and "components r = components newManager"
    and "discoveredList r = []"
    and "findsNothing 5 e"
  shows "outcomeOf 0 (step parse r e) = Some (Resolved JUndefined)"
    and "resolutions 0 (step parse r e) = 1"
    and "map_option outbox (socket (step parse r e)) = Some ob"
    and "discoveredList (step parse r e) = []"
    and "isConnected (step parse r e) = isConnected r"
    and "isIdentified (step parse r e) = isIdentified r"
    and "uncaught (step parse r e) = uncaught r"
proof -
  consider (timer) "e = Fires (DiscoveryTimer 5)"
    | (response) now d where "e = Emits now ''controller:state'' d" "emptyResponse d"
    using assms(9) by (auto simp add: findsNothing_def split: event.splits)
  then have "\<exists>x st hs' ts. step parse r e =
               r\<lparr>timers := ts, tasks := [],
                 settled := settled r @ x @ [(0, Resolved JUndefined)],
                 socket := Some \<lparr> handlers = hs', outbox = ob \<rparr>,
                 controllerStatus := st\<rparr> \<and> fst ` set x \<subseteq> {2, 4, 5}"
  proof cases
    case timer
    have "step parse r e =
               r\<lparr>timers := [(ReadyTimer 3, 30000), (DiscoveryTimer 4, delay)], tasks := [],
                 settled := settled r @ [(5, Resolved (discoveryResult False 0))] @ [(0, Resolved JUndefined)],
                 socket := Some \<lparr> handlers = handlers (freshSocket 0) @ hs
                                    @ [(''controller:state'', OnControllerState 4),
                                       (''controller:state'', OnControllerState 5)],
                               outbox = ob \<rparr>,
                 controllerStatus := controllerStatus r\<rparr>"
      unfolding timer using assms(1-8) by (simp add: step_eval)
    then show ?thesis
      by (intro exI [of _ "[(5, Resolved (discoveryResult False 0))]"]
          exI [of _ "controllerStatus r"]
          exI [of _ "handlers (freshSocket 0) @ hs
                                    @ [(''controller:state'', OnControllerState 4),
                                       (''controller:state'', OnControllerState 5)]"]
          exI [of _ "[(ReadyTimer 3, 30000), (DiscoveryTimer 4, delay)]"] conjI)
        simp_all
  next
    case response
    from assms(2) show ?thesis
    proof
      assume hs: "hs = []"
      have "step parse r e =
               r\<lparr>timers := [(ReadyTimer 3, 30000)], tasks := [],
                 settled := settled r @ [(4, Resolved (discoveryResult (truthy (getPropOpt d ''components'')) 0)), (5, Resolved (discoveryResult (truthy (getPropOpt d ''components'')) 0))] @ [(0, Resolved JUndefined)],
                 socket := Some \<lparr> handlers = handlers (freshSocket 0), outbox = ob \<rparr>,
                 controllerStatus := (if truthy (getPropOpt d ''components'')
                           then \<lparr> statusConnected = (getPropOpt d ''connected'' \<noteq> JBool False),
                                  statusHealth = (if getPropOpt d ''connected'' \<noteq> JBool False
                                                  then ''healthy'' else ''disconnected''),
                                  lastUpdate = now \<rparr>
                           else controllerStatus r)\<rparr>"
        unfolding response using assms(1-8) response(2) hs
        by (simp add: step_eval onControllerState_empty knownIds_new)
      then show ?thesis
        by (intro exI [of _ "[(4, Resolved (discoveryResult (truthy (getPropOpt d ''components'')) 0)), (5, Resolved (discoveryResult (truthy (getPropOpt d ''components'')) 0))]"]
            exI [of _ "(if truthy (getPropOpt d ''components'')
                           then \<lparr> statusConnected = (getPropOpt d ''connected'' \<noteq> JBool False),
                                  statusHealth = (if getPropOpt d ''connected'' \<noteq> JBool False
                                                  then ''healthy'' else ''disconnected''),
                                  lastUpdate = now \<rparr>
                           else controllerStatus r)"]
            exI [of _ "handlers (freshSocket 0)"]
            exI [of _ "[(ReadyTimer 3, 30000)]"] conjI)
          simp_all
    next
      assume hs: "hs = [(''controller:state'', OnControllerState 2)]"
      have "step parse r e =
               r\<lparr>timers := [(ReadyTimer 3, 30000)], tasks := [],
                 settled := settled r @ [(2, Resolved (discoveryResult (truthy (getPropOpt d ''components'')) 0)), (4, Resolved (discoveryResult (truthy (getPropOpt d ''components'')) 0)), (5, Resolved (discoveryResult (truthy (getPropOpt d ''components'')) 0))] @ [(0, Resolved JUndefined)],
                 socket := Some \<lparr> handlers = handlers (freshSocket 0), outbox = ob \<rparr>,
                 controllerStatus := (if truthy (getPropOpt d ''components'')
                           then \<lparr> statusConnected = (getPropOpt d ''connected'' \<noteq> JBool False),
                                  statusHealth = (if getPropOpt d ''connected'' \<noteq> JBool False
                                                  then ''healthy'' else ''disconnected''),
                                  lastUpdate = now \<rparr>
                           else controllerStatus r)\<rparr>"
        unfolding response using assms(1-8) response(2) hs
        by (simp add: step_eval onControllerState_empty knownIds_new)
      then show ?thesis
        by (intro exI [of _ "[(2, Resolved (discoveryResult (truthy (getPropOpt d ''components'')) 0)), (4, Resolved (discoveryResult (truthy (getPropOpt d ''components'')) 0)), (5, Resolved (discoveryResult (truthy (getPropOpt d ''components'')) 0))]"]
            exI [of _ "(if truthy (getPropOpt d ''components'')
                           then \<lparr> statusConnected = (getPropOpt d ''connected'' \<noteq> JBool False),
                                  statusHealth = (if getPropOpt d ''connected'' \<noteq> JBool False
                                                  then ''healthy'' else ''disconnected''),
                                  lastUpdate = now \<rparr>
                           else controllerStatus r)"]
            exI [of _ "handlers (freshSocket 0)"]
            exI [of _ "[(ReadyTimer 3, 30000)]"] conjI)
          simp_all
    qed
  qed
  then obtain x st hs' ts where f: "step parse r e =
               r\<lparr>timers := ts, tasks := [],
                 settled := settled r @ x @ [(0, Resolved JUndefined)],
                 socket := Some \<lparr> handlers = hs', outbox = ob \<rparr>,
                 controllerStatus := st\<rparr>" and x: "fst ` set x \<subseteq> {2, 4, 5}"
    by blast
  have absent: "0 \<notin> fst ` set (settled r)" "0 \<notin> fst ` set x"
    using assms(6) x by auto
  have none: "map_of (settled r) 0 = None" "map_of x 0 = None"
    using absent by (simp_all add: map_of_eq_None_iff)
  have nomem: "filter (\<lambda>(m, r). m = 0) (settled r) = []" "filter (\<lambda>(m, r). m = 0) x = []"
    using absent by (force simp add: filter_empty_conv)+
  show "outcomeOf 0 (step parse r e) = Some (Resolved JUndefined)"
    using none by (simp add: f outcomeOf_def map_add_def)
  show "resolutions 0 (step parse r e) = 1"
    using nomem by (simp add: f resolutions_def)
  show "map_option outbox (socket (step parse r e)) = Some ob"
    and "discoveredList (step parse r e) = []"
    and "isConnected (step parse r e) = isConnected r"
    and "isIdentified (step parse r e) = isIdentified r"
    and "uncaught (step parse r e) = uncaught r"
    using assms by (simp_all add: f)
qed

lemma sendControl_unresolved:
  assumes "isConnected s" and "isIdentified s"
    and "components s = components newManager"
    and "CHR ''-'' \<notin> set key" and "key \<notin> set objectPrototypeKeys"
    and "nextClosure s \<notin> fst ` set (settled s)"
  shows "outcomeOf (fst (sendControl key cid v txn s)) (snd (sendControl key cid v txn s))
           = Some (Rejected (ComponentNotFound key))"
    and "socket (snd (sendControl key cid v txn s)) = socket s"
proof -
  have "resolveTarget key s = None"
    using assms(3-5)
    by (simp add: resolveTarget_def readSlot_def newManager_def split: option.splits)
  then have eq: "sendControl key cid v txn s =
      (nextClosure s, settle (nextClosure s) (Rejected (ComponentNotFound key))
                        (s\<lparr>nextClosure := Suc (nextClosure s)\<rparr>))"
    using assms(1,2) by (simp add: sendControl_def Let_def)
  show "outcomeOf (fst (sendControl key cid v txn s)) (snd (sendControl key cid v txn s))
           = Some (Rejected (ComponentNotFound key))"
    using assms(6) by (simp add: eq settle_def outcomeOf_def map_of_absent map_add_def)
  show "socket (snd (sendControl key cid v txn s)) = socket s"
    by (simp add: eq settle_def)
qed


lemma refreshRequests_outbox:
  "map_option outbox (socket s) = Some ob \<Longrightarrow>
     refreshRequests s
       = length (filter (\<lambda>m. case m of ControllerSubscribe c \<Rightarrow> True | _ \<Rightarrow> False) ob)"
  by (auto simp add: refreshRequests_def split: option.splits)

text \<open>
  C4, as the code has it. After a confirmed identification and a first discovery that
  finds no component, the connect handler waits under a timer of 30 seconds with the
  \<^verbatim>\<open>init\<close> promise undecided. When the timer ends the wait, discovery is requested once
  more, and when that discovery has found nothing either, by its timer or by an empty
  response, the \<^verbatim>\<open>init\<close> promise is resolved, once: two \<^verbatim>\<open>controller:subscribe\<close>
  requests have been sent in all, the manager is connected and identified, the directory
  is empty, and a command for a key that is no component id and no inherited name is
  rejected with \<^verbatim>\<open>Component not found\<close> without anything being sent. When the ready
  signal itself ends the wait, the \<^verbatim>\<open>digitaltwin:ready\<close> listener of \<^verbatim>\<open>init\<close> and the
  connect handler each request a discovery, three requests in all, and the \<^verbatim>\<open>init\<close>
  promise is resolved when the handler's discovery has ended.
\<close>

theorem connect_reaches_ready_without_components:
  assumes "idData \<noteq> JUndefined" and "idData \<noteq> JNull"
    and "findsNothing 2 e1" and "findsNothing 4 e2"
  shows "let waiting = run parse (init cfg newManager) (handshake cfg t idData @ [e1]);
             retrying = step parse waiting (Fires (ReadyTimer 3));
             ready = step parse retrying e2
         in timers waiting = [(ReadyTimer 3, 30000)]
            \<and> outcomeOf 0 waiting = None \<and> refreshRequests waiting = 1
            \<and> outcomeOf 0 retrying = None \<and> refreshRequests retrying = 2
            \<and> outcomeOf 0 ready = Some (Resolved JUndefined) \<and> resolutions 0 ready = 1
            \<and> refreshRequests ready = 2
            \<and> isConnected ready \<and> isIdentified ready
            \<and> discoveredList ready = [] \<and> uncaught ready = []
            \<and> (\<forall>key cid v txn. CHR ''-'' \<notin> set key \<and> key \<notin> set objectPrototypeKeys \<longrightarrow>
                  outcomeOf (fst (sendControl key cid v txn ready))
                            (snd (sendControl key cid v txn ready))
                    = Some (Rejected (ComponentNotFound key))
                  \<and> socket (snd (sendControl key cid v txn ready)) = socket ready)
            \<and> (\<forall>now rd e3. rd \<noteq> JUndefined \<and> rd \<noteq> JNull \<and> findsNothing 5 e3 \<longrightarrow>
                  (let signalled = step parse waiting (Emits now ''digitaltwin:ready'' rd);
                       late = step parse signalled e3
                   in outcomeOf 0 signalled = None \<and> refreshRequests signalled = 3
                      \<and> outcomeOf 0 late = Some (Resolved JUndefined)
                      \<and> resolutions 0 late = 1 \<and> refreshRequests late = 3
                      \<and> isConnected late \<and> isIdentified late \<and> discoveredList late = []))"
proof -
  define w where "w = run parse (init cfg newManager) (handshake cfg t idData @ [e1])"
  define r where "r = step parse w (Fires (ReadyTimer 3))"
  define f where "f = step parse r e2"
  note w = first_discovery [OF assms(1-3), of parse cfg t, folded w_def]
  from w(1) obtain hs where hs: "hs = [] \<or> hs = [(''controller:state'', OnControllerState 2)]"
    and sock: "socket w = Some \<lparr> handlers = handlers (freshSocket 0) @ hs
                                    @ [(''digitaltwin:ready'', OnReady 3)],
                            outbox = [ClientIdentify, ControllerSubscribe (controllerId cfg)] \<rparr>"
    by blast
  have absent_w: "0 \<notin> fst ` set (settled w)" "3 \<notin> fst ` set (settled w)"
    using w(5) by simp_all
  have w0: "outcomeOf 0 w = None"
    using absent_w by (simp add: outcomeOf_def map_of_absent)
  have wreq: "refreshRequests w = 1"
    using sock by (simp add: refreshRequests_def)
  have r_eq: "r = w\<lparr>timers := [(DiscoveryTimer 4, orDefault (discoveryTimeout cfg) 10000)],
             tasks := [\<lparr> awaits = 4, stage = AfterRetry, settles = 0 \<rparr>],
             settled := settled w @ [(3, Resolved JUndefined)],
             socket := Some \<lparr> handlers = handlers (freshSocket 0) @ hs
                                    @ [(''digitaltwin:ready'', OnReady 3),
                                       (''controller:state'', OnControllerState 4)],
                               outbox = [ClientIdentify, ControllerSubscribe (controllerId cfg)]
                                          @ [ControllerSubscribe (controllerId cfg)] \<rparr>,
             nextClosure := 5\<rparr>"
    unfolding r_def by (rule wait_times_out [OF sock w(2,3,4,5,6,11)])
  have r0: "outcomeOf 0 r = None"
    using absent_w by (simp add: r_eq outcomeOf_def map_of_absent map_add_def)
  have rreq: "refreshRequests r = 2"
    by (simp add: r_eq refreshRequests_def)
  have rset: "fst ` set (settled r) = {1, 2, 3}"
    using w(5) by (auto simp add: r_eq)
  note f = second_discovery [of r hs "[ClientIdentify, ControllerSubscribe (controllerId cfg),
                                       ControllerSubscribe (controllerId cfg)]"
      "orDefault (discoveryTimeout cfg) 10000" e2 parse, folded f_def]
  have rs: "socket r = Some \<lparr> handlers = handlers (freshSocket 0) @ hs
                                    @ [(''digitaltwin:ready'', OnReady 3),
                                       (''controller:state'', OnControllerState 4)],
                               outbox = [ClientIdentify, ControllerSubscribe (controllerId cfg),
                                       ControllerSubscribe (controllerId cfg)] \<rparr>"
    "timers r = [(DiscoveryTimer 4, orDefault (discoveryTimeout cfg) 10000)]"
    "tasks r = [\<lparr> awaits = 4, stage = AfterRetry, settles = 0 \<rparr>]"
    "runnable r = []"
    "components r = components newManager"
    "discoveredList r = []"
    "isConnected r" "isIdentified r" "uncaught r = []" "nextClosure r = 5"
    using w by (simp_all add: r_eq)
  note ff = f [OF rs(1) hs rs(2,3,4) rset rs(5,6) assms(4)]
  have freq: "refreshRequests f = 2"
    using refreshRequests_outbox [OF ff(3)] by simp
  have fnext: "nextClosure f \<notin> fst ` set (settled f)"
    using ff(12,13) rs(10) by auto
  have cmd: "\<forall>key cid v txn. CHR ''-'' \<notin> set key \<and> key \<notin> set objectPrototypeKeys \<longrightarrow>
                  outcomeOf (fst (sendControl key cid v txn f))
                            (snd (sendControl key cid v txn f))
                    = Some (Rejected (ComponentNotFound key))
                  \<and> socket (snd (sendControl key cid v txn f)) = socket f"
    using sendControl_unresolved [of f] ff(5,6,7) rs(7,8) fnext by simp
  have arrival: "\<forall>now rd e3. rd \<noteq> JUndefined \<and> rd \<noteq> JNull \<and> findsNothing 5 e3 \<longrightarrow>
                  (let signalled = step parse w (Emits now ''digitaltwin:ready'' rd);
                       late = step parse signalled e3
                   in outcomeOf 0 signalled = None \<and> refreshRequests signalled = 3
                      \<and> outcomeOf 0 late = Some (Resolved JUndefined)
                      \<and> resolutions 0 late = 1 \<and> refreshRequests late = 3
                      \<and> isConnected late \<and> isIdentified late \<and> discoveredList late = [])"
  proof (intro allI impI)
    fix now rd e3
    assume h: "rd \<noteq> JUndefined \<and> rd \<noteq> JNull \<and> findsNothing 5 e3"
    define a where "a = step parse w (Emits now ''digitaltwin:ready'' rd)"
    define l where "l = step parse a e3"
    have a_eq: "a = w\<lparr>timers := [(ReadyTimer 3, 30000),
                         (DiscoveryTimer 4, orDefault (discoveryTimeout cfg) 10000),
                         (DiscoveryTimer 5, orDefault (discoveryTimeout cfg) 10000)],
             tasks := [\<lparr> awaits = 5, stage = AfterRetry, settles = 0 \<rparr>],
             settled := settled w @ [(3, Resolved JUndefined)],
             socket := Some \<lparr> handlers = handlers (freshSocket 0) @ hs
                                    @ [(''controller:state'', OnControllerState 4),
                                       (''controller:state'', OnControllerState 5)],
                               outbox = [ClientIdentify, ControllerSubscribe (controllerId cfg)]
                                         @ [ControllerSubscribe (controllerId cfg),
                                              ControllerSubscribe (controllerId cfg)] \<rparr>,
             nextClosure := 6\<rparr>"
      unfolding a_def using h by (intro signal_arrives [OF sock hs w(2,3,4,5,6,11,8)]) simp_all
    have a0: "outcomeOf 0 a = None"
      using absent_w by (simp add: a_eq outcomeOf_def map_of_absent map_add_def)
    have areq: "refreshRequests a = 3"
      by (simp add: a_eq refreshRequests_def)
    have aset: "fst ` set (settled a) = {1, 2, 3}"
      using w(5) by (auto simp add: a_eq)
    have as: "socket a = Some \<lparr> handlers = handlers (freshSocket 0) @ hs
                                    @ [(''controller:state'', OnControllerState 4),
                                       (''controller:state'', OnControllerState 5)],
                               outbox = [ClientIdentify, ControllerSubscribe (controllerId cfg),
                                         ControllerSubscribe (controllerId cfg),
                                         ControllerSubscribe (controllerId cfg)] \<rparr>"
      "timers a = [(ReadyTimer 3, 30000),
                         (DiscoveryTimer 4, orDefault (discoveryTimeout cfg) 10000),
                         (DiscoveryTimer 5, orDefault (discoveryTimeout cfg) 10000)]"
      "tasks a = [\<lparr> awaits = 5, stage = AfterRetry, settles = 0 \<rparr>]"
      "runnable a = []"
      "components a = components newManager"
      "discoveredList a = []"
      "isConnected a" "isIdentified a"
      using w by (simp_all add: a_eq)
    from h have e3: "findsNothing 5 e3" by simp
    note ll = third_discovery [OF as(1) hs as(2,3,4) aset as(5,6) e3, of parse, folded l_def]
    have lreq: "refreshRequests l = 3"
      using refreshRequests_outbox [OF ll(3)] by simp
    show "let signalled = step parse w (Emits now ''digitaltwin:ready'' rd);
              late = step parse signalled e3
          in outcomeOf 0 signalled = None \<and> refreshRequests signalled = 3
                      \<and> outcomeOf 0 late = Some (Resolved JUndefined)
                      \<and> resolutions 0 late = 1 \<and> refreshRequests late = 3
                      \<and> isConnected late \<and> isIdentified late \<and> discoveredList late = []"
      using a0 areq ll(1,2,4,5,6) lreq as(7,8)
      by (simp add: Let_def a_def [symmetric] l_def [symmetric])
  qed
  have conn: "isConnected f" "isIdentified f" "uncaught f = []"
    using ff(6,7,8) rs(7,8,9) by simp_all
  note facts = w(2) w0 wreq r0 rreq ff(1,2) freq conn(1,2) ff(4) conn(3) cmd
    arrival [unfolded Let_def]
  show ?thesis
    unfolding Let_def w_def [symmetric] r_def [symmetric] f_def [symmetric]
    by (intro conjI) (rule facts)+
qed

theorem connect_without_components_witness:
  "JObj [(''socketId'', JStr ''Zx3'')] \<noteq> JUndefined
   \<and> JObj [(''socketId'', JStr ''Zx3'')] \<noteq> JNull
   \<and> findsNothing 2 (Fires (DiscoveryTimer 2))
   \<and> findsNothing 4 (Emits 41500 ''controller:state'' (JObj [(''components'', JObj [])]))
   \<and> findsNothing 5 (Fires (DiscoveryTimer 5))
   \<and> CHR ''-'' \<notin> set ''mixer'' \<and> ''mixer'' \<notin> set objectPrototypeKeys
   \<and> outcomeOf 0
        (step sampleParse
          (step sampleParse
            (run sampleParse (init sampleConfig newManager)
               (handshake sampleConfig 1000 (JObj [(''socketId'', JStr ''Zx3'')])
                  @ [Fires (DiscoveryTimer 2)]))
            (Fires (ReadyTimer 3)))
          (Emits 41500 ''controller:state'' (JObj [(''components'', JObj [])])))
       = Some (Resolved JUndefined)
   \<and> refreshRequests
        (step sampleParse
          (step sampleParse
            (run sampleParse (init sampleConfig newManager)
               (handshake sampleConfig 1000 (JObj [(''socketId'', JStr ''Zx3'')])
                  @ [Fires (DiscoveryTimer 2)]))
            (Fires (ReadyTimer 3)))
          (Emits 41500 ''controller:state'' (JObj [(''components'', JObj [])])))
       = 2
   \<and> outcomeOf
        (fst (sendControl ''mixer'' ''output.1.gain'' (JNum 3) ''mcp-50000-0c2d''
          (step sampleParse
            (step sampleParse
              (run sampleParse (init sampleConfig newManager)
                 (handshake sampleConfig 1000 (JObj [(''socketId'', JStr ''Zx3'')])
                    @ [Fires (DiscoveryTimer 2)]))
              (Fires (ReadyTimer 3)))
            (Emits 41500 ''controller:state'' (JObj [(''components'', JObj [])])))))
        (snd (sendControl ''mixer'' ''output.1.gain'' (JNum 3) ''mcp-50000-0c2d''
          (step sampleParse
            (step sampleParse
              (run sampleParse (init sampleConfig newManager)
                 (handshake sampleConfig 1000 (JObj [(''socketId'', JStr ''Zx3'')])
                    @ [Fires (DiscoveryTimer 2)]))
              (Fires (ReadyTimer 3)))
            (Emits 41500 ''controller:state'' (JObj [(''components'', JObj [])])))))
       = Some (Rejected (ComponentNotFound ''mixer''))
   \<and> refreshRequests
        (step sampleParse
          (step sampleParse
            (run sampleParse (init sampleConfig newManager)
               (handshake sampleConfig 1000 (JObj [(''socketId'', JStr ''Zx3'')])
                  @ [Fires (DiscoveryTimer 2)]))
            (Emits 20000 ''digitaltwin:ready'' (JObj [])))
          (Fires (DiscoveryTimer 5)))
       = 3"
proof -
  have h: "findsNothing 2 (Fires (DiscoveryTimer 2))"
    "findsNothing 4 (Emits 41500 ''controller:state'' (JObj [(''components'', JObj [])]))"
    "findsNothing 5 (Fires (DiscoveryTimer 5))"
    by (simp_all add: findsNothing_def emptyResponse_def)
  have k: "CHR ''-'' \<notin> set ''mixer''" "''mixer'' \<notin> set objectPrototypeKeys"
    by (simp_all add: objectPrototypeKeys_def)
  show ?thesis
    using connect_reaches_ready_without_components
      [of "JObj [(''socketId'', JStr ''Zx3'')]" "Fires (DiscoveryTimer 2)"
          "Emits 41500 ''controller:state'' (JObj [(''components'', JObj [])])"
          sampleParse sampleConfig 1000] h k
    by (simp add: Let_def)
qed

text \<open>
  Discovery is not always retried exactly once: when the ready signal arrives during
  the wait, three \<^verbatim>\<open>controller:subscribe\<close> requests have been sent when the \<^verbatim>\<open>init\<close>
  promise is resolved.
\<close>

theorem connect_retries_twice_counterexample:
  "outcomeOf 0
     (run sampleParse (init sampleConfig newManager)
        (handshake sampleConfig 1000 (JObj [(''socketId'', JStr ''Zx3'')])
           @ [Fires (DiscoveryTimer 2), Emits 20000 ''digitaltwin:ready'' (JObj []),
              Fires (DiscoveryTimer 5)]))
     = Some (Resolved JUndefined)
   \<and> refreshRequests
     (run sampleParse (init sampleConfig newManager)
        (handshake sampleConfig 1000 (JObj [(''socketId'', JStr ''Zx3'')])
           @ [Fires (DiscoveryTimer 2), Emits 20000 ''digitaltwin:ready'' (JObj []),
              Fires (DiscoveryTimer 5)]))
     = 3"
  by code_simp

section \<open>State cache: updates that renew nothing\<close>

text \<open>
  C9. Not every inbound \<^verbatim>\<open>control:update\<close> event renews the cache's freshness. The name
  \<^verbatim>\<open>constructor\<close> is not in the table, and yet an event for it that carries no
  \<^verbatim>\<open>control\<close> object makes the handler throw, as does such an event for a control of
  the table: the handler reads \<^verbatim>\<open>control.value\<close> outside its \<^verbatim>\<open>try\<close> block, before
  it writes the timestamp. Delivered to an initialised manager with a state listener,
  the event leaves the timestamp as it was, the listener is not called, and the
  exception escapes the handler. An event for a name that the table neither holds nor
  inherits sets the timestamp.
\<close>

theorem update_without_control_throws:
  "controlMap ''constructor'' = None
   \<and> handleControlUpdate parse now (bareUpdate ''constructor'') s = Inl TypeError
   \<and> handleControlUpdate parse now (bareUpdate ''HardwareState'') s = Inl TypeError
   \<and> timestamp (state (step sampleParse listening
         (Emits 9000 ''control:update'' (JObj [(''controlId'', JStr ''constructor'')]))))
       = timestamp (state listening)
   \<and> notifyLog (step sampleParse listening
         (Emits 9000 ''control:update'' (JObj [(''controlId'', JStr ''constructor'')]))) = []
   \<and> uncaught (step sampleParse listening
         (Emits 9000 ''control:update'' (JObj [(''controlId'', JStr ''constructor'')])))
       = [TypeError]
   \<and> timestamp (state (step sampleParse listening
         (Emits 9000 ''control:update'' (JObj [(''controlId'', JStr ''HardwareState'')]))))
       = timestamp (state listening)
   \<and> timestamp (state (step sampleParse listening
         (Emits 9000 ''control:update'' (JObj [(''controlId'', JStr ''some.other.control'')]))))
       = 9000"
proof -
  have a: "controlMap ''constructor'' = None"
    by (simp add: controlMap_def)
  have b: "handleControlUpdate parse now (bareUpdate ''constructor'') s = Inl TypeError"
    by (simp add: handleControlUpdate_def bareUpdate_def readSlot_def controlMap_def bindE_def
        objectPrototypeKeys_def)
  have c: "handleControlUpdate parse now (bareUpdate ''HardwareState'') s = Inl TypeError"
    by (simp add: handleControlUpdate_def bareUpdate_def readSlot_def controlMap_def bindE_def)
  have d: "timestamp (state (step sampleParse listening
         (Emits 9000 ''control:update'' (JObj [(''controlId'', JStr ''constructor'')]))))
       = timestamp (state listening)"
    by code_simp
  have e: "notifyLog (step sampleParse listening
         (Emits 9000 ''control:update'' (JObj [(''controlId'', JStr ''constructor'')]))) = []"
    by code_simp
  have f: "uncaught (step sampleParse listening
         (Emits 9000 ''control:update'' (JObj [(''controlId'', JStr ''constructor'')])))
       = [TypeError]"
    by code_simp
  have g: "timestamp (state (step sampleParse listening
         (Emits 9000 ''control:update'' (JObj [(''controlId'', JStr ''HardwareState'')]))))
       = timestamp (state listening)"
    by code_simp
  have h: "timestamp (state (step sampleParse listening
         (Emits 9000 ''control:update'' (JObj [(''controlId'', JStr ''some.other.control'')]))))
       = 9000"
    by code_simp
  from a b c d e f g h show ?thesis
    by blast
qed

section \<open>Component subscriptions: inherited names\<close>

text \<open>
  C6. Two calls of \<^verbatim>\<open>subscribeToComponent\<close> for the id \<^verbatim>\<open>constructor\<close>, one after the
  other on a connected and identified manager that watches no component, both return
  the built-in that the table of watched components inherits under that name, and no
  \<^verbatim>\<open>component:subscribe\<close> request is sent at all. For an id that the table does not
  inherit, a call, the component's state, and a second call send one request.
\<close>

theorem subscribe_inherited_name_sends_nothing:
  "isConnected readyManager \<and> isIdentified readyManager \<and> watched readyManager = []
   \<and> subscribeTwice ''constructor'' readyManager
       = (CachedBuiltin ''constructor'', CachedBuiltin ''constructor'', readyManager)
   \<and> subscribeRequests ''constructor''
        (run sampleParse readyManager [CallSubscribe ''constructor'', CallSubscribe ''constructor''])
       = 0
   \<and> subscribeRequests ''mix-1''
        (run sampleParse readyManager
           [CallSubscribe ''mix-1'',
            Emits 2000 ''component:state'' (JObj [(''componentId'', JStr ''mix-1'')]),
            CallSubscribe ''mix-1''])
       = 1"
  by code_simp

section \<open>Commands: listeners after a forced reconnect\<close>

text \<open>
  C1. A command is sent on a connected manager that has missed two pongs; its two
  listeners are registered on the socket. The liveness checker then counts the third
  miss and forces the reconnect, which replaces the socket, and after that the
  command's timer fires. The promise is rejected with the timeout, once; but
  \<^verbatim>\<open>cleanup\<close> takes the listeners off the new socket, where they never were, and both
  are still registered on the socket the command was sent on. Without the reconnect
  the timer takes both listeners off.
\<close>

theorem command_listeners_outlive_reconnect:
  "isConnected twoMissed \<and> isIdentified twoMissed
   \<and> map_option (listenerCount ''control:set:success'') (socket twoMissed) = Some 0
   \<and> map_option (listenersOn ''control:set:success'')
        (socket (run sampleParse twoMissed commandSent))
       = Some [OnSuccess 1 ''mcp-31000-1b9d6bcd'']
   \<and> map_option (listenersOn ''control:set:error'')
        (socket (run sampleParse twoMissed commandSent))
       = Some [OnError 1 ''mcp-31000-1b9d6bcd'']
   \<and> settled (run sampleParse twoMissed reconnectedMeanwhile) = [(1, Rejected CommandTimeout)]
   \<and> resolutions 1 (run sampleParse twoMissed reconnectedMeanwhile) = 1
   \<and> map (listenersOn ''control:set:success'')
        (retired (run sampleParse twoMissed reconnectedMeanwhile))
       = [[OnSuccess 1 ''mcp-31000-1b9d6bcd'']]
   \<and> map (listenersOn ''control:set:error'')
        (retired (run sampleParse twoMissed reconnectedMeanwhile))
       = [[OnError 1 ''mcp-31000-1b9d6bcd'']]
   \<and> map_option (listenerCount ''control:set:success'')
        (socket (run sampleParse twoMissed reconnectedMeanwhile)) = Some 0
   \<and> map_option (listenerCount ''control:set:success'')
        (socket (run sampleParse twoMissed
                   (commandSent @ [Fires (CommandTimer 1 ''mcp-31000-1b9d6bcd'')]))) = Some 0
   \<and> map_option (listenerCount ''control:set:error'')
        (socket (run sampleParse twoMissed
                   (commandSent @ [Fires (CommandTimer 1 ''mcp-31000-1b9d6bcd'')]))) = Some 0"
  by code_simp

end
